theory Spec2Isabelle
  imports Complex_Main
begin

section \<open>Data model of \<^verbatim>\<open>model_distiller.py\<close>\<close>

text \<open>
  The distiller is glue code over a deep-learning framework. Tensors are lists of reals,
  a state dict (\<^verbatim>\<open>state_dict()\<close> of a module, an optimizer or a scheduler) is a list of
  named tensors, Python floats are idealised as reals. Console output is not modelled,
  except the accuracy line of \<^verbatim>\<open>evaluate\<close>, which is the record of what a run observed.
\<close>

type_synonym tensor = "real list"
type_synonym state_dict = "(string \<times> tensor) list"
type_synonym image = "real list"

text \<open>A batch of the data loader: the samples with their targets (class indices). A data
  loader is the list of the batches that one pass over it yields; that a sampler may yield
  them in another order in another epoch is not modelled.\<close>

type_synonym batch = "(image \<times> nat) list"

text \<open>The entries of the YAML configuration that \<^verbatim>\<open>distill\<close> reads itself:
  \<^verbatim>\<open>config['train']['epoch']\<close>, \<^verbatim>\<open>config['train']['interval']\<close> and
  \<^verbatim>\<open>config['mimic_model']['ckpt']\<close>. The criterion, optimizer and scheduler sections are
  only handed to the framework's factories.\<close>

record config =
  train_epoch :: int
  train_interval :: int
  mimic_ckpt :: string

text \<open>The namespace built by \<^verbatim>\<open>get_argparser\<close>; the field \<open>args_x\<close> is
  \<^verbatim>\<open>args.x\<close>.\<close>

record args =
  args_config :: string
  args_device :: string
  args_start_epoch :: int
  args_sync_bn :: bool
  args_test_only :: bool
  args_student_only :: bool
  args_apex :: bool
  args_apex_opt_level :: string
  args_world_size :: int
  args_dist_url :: string

text \<open>Python values that occur in a checkpoint or in a result tuple of \<^verbatim>\<open>load_ckpt\<close>.\<close>

datatype pyval =
    PNone
  | PFloat real
  | PStateDict state_dict
  | PConfig config
  | PArgs args

text \<open>A checkpoint is a Python dict with string keys, in insertion order.\<close>

type_synonym ckpt = "(string \<times> pyval) list"

datatype error =
    KeyError string
  | ValueError
  | TypeError
  | FileNotFoundError
  | RuntimeError
  | AttributeError

text \<open>A function that raises returns \<open>Inl\<close> of the exception and of the state that its
  objects have at that moment; a function that returns normally returns \<open>Inr\<close>.
  \<^verbatim>\<open>d[k]\<close> raises \<^verbatim>\<open>KeyError\<close> on a missing key, \<^verbatim>\<open>d.get(k, default)\<close> does not.\<close>

definition getitem :: "ckpt \<Rightarrow> string \<Rightarrow> error + pyval" where
  "getitem d k = (case map_of d k of None \<Rightarrow> Inl (KeyError k) | Some v \<Rightarrow> Inr v)"

definition get_default :: "ckpt \<Rightarrow> string \<Rightarrow> pyval \<Rightarrow> pyval" where
  "get_default d k dflt = (case map_of d k of None \<Rightarrow> dflt | Some v \<Rightarrow> v)"

text \<open>An \<^verbatim>\<open>nn.Module\<close>: its parameters and buffers, and its train/eval mode.\<close>

record module =
  params :: state_dict
  training :: bool

text \<open>A model handle is a module, or a module wrapped by \<^verbatim>\<open>DistributedDataParallel\<close>.
  The wrapper shares the module: it has no parameters of its own.\<close>

datatype model_obj = Plain module | DistributedDataParallel module

fun module_of :: "model_obj \<Rightarrow> module" where
  "module_of (Plain m) = m"
| "module_of (DistributedDataParallel m) = m"

fun map_module :: "(module \<Rightarrow> module) \<Rightarrow> model_obj \<Rightarrow> model_obj" where
  "map_module f (Plain m) = Plain (f m)"
| "map_module f (DistributedDataParallel m) = DistributedDataParallel (f m)"

text \<open>\<^verbatim>\<open>state_dict()\<close>: the wrapper reports the entries of its module under the prefix
  \<^verbatim>\<open>module.\<close>; this is why \<^verbatim>\<open>save_ckpt\<close> unwraps first.\<close>

fun state_dict_of :: "model_obj \<Rightarrow> state_dict" where
  "state_dict_of (Plain m) = params m"
| "state_dict_of (DistributedDataParallel m) = map (\<lambda>(k, v). (''module.'' @ k, v)) (params m)"

text \<open>\<^verbatim>\<open>model.train()\<close> and \<^verbatim>\<open>model.eval()\<close>.\<close>

definition set_mode :: "bool \<Rightarrow> model_obj \<Rightarrow> model_obj" where
  "set_mode b = map_module (\<lambda>m. m\<lparr>training := b\<rparr>)"

text \<open>The header that \<^verbatim>\<open>log_every\<close> prints: \<^verbatim>\<open>'Epoch: [e]'\<close> for a training pass,
  \<^verbatim>\<open>'<split>:'\<close> for an evaluation pass.\<close>

datatype header = EpochHeader int | SplitHeader string

text \<open>The calls into the framework and the helper modules, in the order they are made.\<close>

datatype event =
    EvSetEpoch int
  | EvTeacherEval
  | EvStudentTrain
  | EvLogEvery header int
  | EvBoxForward batch
  | EvZeroGrad
  | EvBackward bool
  | EvOptimizerStep
  | EvSetNumThreads nat
  | EvModelEval
  | EvModelForward batch bool
  | EvSynchronize
  | EvPrintAcc real real
  | EvMakeParentDirs string
  | EvSaveOnMaster ckpt string
  | EvSchedulerStep
  | EvBarrier

text \<open>The state of the process outside the Python objects: the files (each holding a
  serialised dict), the thread count of the framework, the global gradient mode, whether
  this process is the main one, whether \<^verbatim>\<open>apex\<close> could be imported (the module global
  \<^verbatim>\<open>amp\<close> is \<^verbatim>\<open>None\<close> when it could not, lines 18 to 21), whether the default process
  group of \<^verbatim>\<open>torch.distributed\<close> has been initialised, and the log of calls.\<close>

record sys =
  files :: "string \<rightharpoonup> ckpt"
  torch_num_threads :: nat
  grad_enabled :: bool
  main_process :: bool
  amp_available :: bool
  dist_initialized :: bool
  events :: "event list"

definition emit :: "event \<Rightarrow> sys \<Rightarrow> sys" where
  "emit e s = s\<lparr>events := events s @ [e]\<rparr>"

text \<open>\<^verbatim>\<open>file_util.check_if_exists\<close>, \<^verbatim>\<open>torch.load\<close> and \<^verbatim>\<open>torch.save\<close> on this file
  system.\<close>

definition check_if_exists :: "sys \<Rightarrow> string \<Rightarrow> bool" where
  "check_if_exists s p = (files s p \<noteq> None)"

definition torch_load :: "sys \<Rightarrow> string \<Rightarrow> error + ckpt" where
  "torch_load s p = (case files s p of None \<Rightarrow> Inl FileNotFoundError | Some obj \<Rightarrow> Inr obj)"

definition torch_save :: "ckpt \<Rightarrow> string \<Rightarrow> sys \<Rightarrow> sys" where
  "torch_save obj p s = s\<lparr>files := (files s)(p \<mapsto> obj)\<rparr>"

section \<open>The framework\<close>

text \<open>
  What the numerical library computes is not part of the program; it enters as a record
  of functions. \<open>fw_get_optimizer\<close> and \<open>fw_get_scheduler\<close> are the factories
  \<^verbatim>\<open>func_util.get_optimizer\<close> and \<^verbatim>\<open>func_util.get_scheduler\<close> (the state of the fresh
  object). \<open>fw_model\<close> is the forward pass \<^verbatim>\<open>model(image)\<close> in eval mode, from the
  parameters and one sample to the row of class scores. \<open>fw_train_cycle\<close> is the effect
  on the student's parameters and the optimizer's state of one cycle of forward pass of the
  distillation box, backward pass (through \<^verbatim>\<open>amp.scale_loss\<close> when the flag is set) and
  optimizer step on one batch. \<open>fw_scheduler_step\<close> is \<^verbatim>\<open>lr_scheduler.step()\<close>, which
  changes the scheduler and the learning rate held by the optimizer. The last three say
  what \<^verbatim>\<open>load_state_dict\<close> of a module, an optimizer and a scheduler does with a value that
  is not a state dict: the exception it raises, if any, and the state of the object
  afterwards.
\<close>

record framework =
  fw_get_optimizer :: "config \<Rightarrow> model_obj \<Rightarrow> state_dict"
  fw_get_scheduler :: "config \<Rightarrow> state_dict \<Rightarrow> state_dict"
  fw_model :: "state_dict \<Rightarrow> image \<Rightarrow> real list"
  fw_train_cycle :: "bool \<Rightarrow> batch \<Rightarrow> state_dict \<times> state_dict \<Rightarrow> state_dict \<times> state_dict"
  fw_scheduler_step :: "state_dict \<times> state_dict \<Rightarrow> state_dict \<times> state_dict"
  fw_module_load_other :: "bool \<Rightarrow> pyval \<Rightarrow> module \<Rightarrow> error option \<times> module"
  fw_optimizer_load_other :: "pyval \<Rightarrow> state_dict \<Rightarrow> error option \<times> state_dict"
  fw_scheduler_load_other :: "pyval \<Rightarrow> state_dict \<Rightarrow> error option \<times> state_dict"

text \<open>
  \<^verbatim>\<open>Module.load_state_dict(state_dict, strict)\<close> on a state dict. Every entry of the
  module whose key the state dict has, with a tensor of the same size, takes the stored
  tensor; the other entries stay. Then \<^verbatim>\<open>RuntimeError\<close> is raised when a shared key has
  tensors of different sizes, or, under \<^verbatim>\<open>strict\<close>, when the module has a key that the
  state dict lacks or the state dict a key that the module lacks. The size of a tensor is
  its length here.
\<close>

definition load_into :: "state_dict \<Rightarrow> state_dict \<Rightarrow> state_dict" where
  "load_into own sd =
     map (\<lambda>(k, v). (k, case map_of sd k of
                           None \<Rightarrow> v
                         | Some w \<Rightarrow> if length w = length v then w else v)) own"

definition size_mismatch :: "state_dict \<Rightarrow> state_dict \<Rightarrow> bool" where
  "size_mismatch own sd =
     list_ex (\<lambda>(k, v). case map_of sd k of None \<Rightarrow> False | Some w \<Rightarrow> length w \<noteq> length v) own"

definition missing_keys :: "state_dict \<Rightarrow> state_dict \<Rightarrow> string list" where
  "missing_keys own sd = filter (\<lambda>k. map_of sd k = None) (map fst own)"

definition unexpected_keys :: "state_dict \<Rightarrow> state_dict \<Rightarrow> string list" where
  "unexpected_keys own sd = filter (\<lambda>k. map_of own k = None) (map fst sd)"

definition load_raises :: "bool \<Rightarrow> state_dict \<Rightarrow> state_dict \<Rightarrow> bool" where
  "load_raises strict own sd =
     (size_mismatch own sd
      \<or> (strict \<and> (missing_keys own sd \<noteq> [] \<or> unexpected_keys own sd \<noteq> [])))"

definition module_load_state_dict ::
  "framework \<Rightarrow> bool \<Rightarrow> pyval \<Rightarrow> module \<Rightarrow> error option \<times> module" where
  "module_load_state_dict fw strict v m =
     (case v of
        PStateDict sd \<Rightarrow>
          (if load_raises strict (params m) sd then Some RuntimeError else None,
           m\<lparr>params := load_into (params m) sd\<rparr>)
      | _ \<Rightarrow> fw_module_load_other fw strict v m)"

text \<open>\<^verbatim>\<open>load_state_dict\<close> of an optimizer and of a scheduler on a state dict of their kind
  (one that \<^verbatim>\<open>state_dict()\<close> of an object built the same way has produced, as in a
  checkpoint that \<^verbatim>\<open>save_ckpt\<close> wrote): the object takes the stored state.\<close>

definition optimizer_load_state_dict ::
  "framework \<Rightarrow> pyval \<Rightarrow> state_dict \<Rightarrow> error option \<times> state_dict" where
  "optimizer_load_state_dict fw v optimizer =
     (case v of PStateDict sd \<Rightarrow> (None, sd) | _ \<Rightarrow> fw_optimizer_load_other fw v optimizer)"

definition scheduler_load_state_dict ::
  "framework \<Rightarrow> pyval \<Rightarrow> state_dict \<Rightarrow> error option \<times> state_dict" where
  "scheduler_load_state_dict fw v lr_scheduler =
     (case v of PStateDict sd \<Rightarrow> (None, sd) | _ \<Rightarrow> fw_scheduler_load_other fw v lr_scheduler)"

section \<open>Checkpoint store\<close>

text \<open>
  \<^verbatim>\<open>load_ckpt(ckpt_file_path, model=None, optimizer=None, lr_scheduler=None, strict=True)\<close>.
  The three objects are passed as options (\<open>None\<close> is Python's \<^verbatim>\<open>None\<close>) and come back
  with the state they have when the function is left, also when it is left by an
  exception: what was loaded before the exception stays loaded. The result tuple is a list
  of Python values. A key that the dict lacks raises \<^verbatim>\<open>KeyError\<close> at the statement that
  reads it.
\<close>

definition load_ckpt ::
  "framework \<Rightarrow> sys \<Rightarrow> string \<Rightarrow> module option \<Rightarrow> state_dict option \<Rightarrow> state_dict option \<Rightarrow> bool
    \<Rightarrow> (error \<times> module option \<times> state_dict option \<times> state_dict option)
        + (pyval list \<times> module option \<times> state_dict option \<times> state_dict option)" where
  "load_ckpt fw s ckpt_file_path model optimizer lr_scheduler strict =
    (if \<not> check_if_exists s ckpt_file_path
     then Inr ([PNone, PNone], model, optimizer, lr_scheduler)
     else case torch_load s ckpt_file_path of
       Inl e \<Rightarrow> Inl (e, model, optimizer, lr_scheduler)
     | Inr ckpt \<Rightarrow>
        (case (case model of
                 None \<Rightarrow> Inr None
               | Some m \<Rightarrow>
                  (case getitem ckpt ''model'' of
                     Inl e \<Rightarrow> Inl (e, Some m)
                   | Inr v \<Rightarrow>
                      (case module_load_state_dict fw strict v m of
                         (Some e, m') \<Rightarrow> Inl (e, Some m')
                       | (None, m') \<Rightarrow> Inr (Some m')))) of
           Inl (e, model') \<Rightarrow> Inl (e, model', optimizer, lr_scheduler)
         | Inr model' \<Rightarrow>
            (case (case optimizer of
                     None \<Rightarrow> Inr None
                   | Some opt \<Rightarrow>
                      (case getitem ckpt ''optimizer'' of
                         Inl e \<Rightarrow> Inl (e, Some opt)
                       | Inr v \<Rightarrow>
                          (case optimizer_load_state_dict fw v opt of
                             (Some e, opt') \<Rightarrow> Inl (e, Some opt')
                           | (None, opt') \<Rightarrow> Inr (Some opt')))) of
               Inl (e, optimizer') \<Rightarrow> Inl (e, model', optimizer', lr_scheduler)
             | Inr optimizer' \<Rightarrow>
                (case (case lr_scheduler of
                         None \<Rightarrow> Inr None
                       | Some sch \<Rightarrow>
                          (case getitem ckpt ''lr_scheduler'' of
                             Inl e \<Rightarrow> Inl (e, Some sch)
                           | Inr v \<Rightarrow>
                              (case scheduler_load_state_dict fw v sch of
                                 (Some e, sch') \<Rightarrow> Inl (e, Some sch')
                               | (None, sch') \<Rightarrow> Inr (Some sch')))) of
                   Inl (e, lr_scheduler') \<Rightarrow> Inl (e, model', optimizer', lr_scheduler')
                 | Inr lr_scheduler' \<Rightarrow>
                    (case getitem ckpt ''config'' of
                       Inl e \<Rightarrow> Inl (e, model', optimizer', lr_scheduler')
                     | Inr cfg \<Rightarrow>
                        (case getitem ckpt ''args'' of
                           Inl e \<Rightarrow> Inl (e, model', optimizer', lr_scheduler')
                         | Inr a \<Rightarrow>
                            Inr ([get_default ckpt ''best_value'' (PFloat 0.0), cfg, a],
                                 model', optimizer', lr_scheduler')))))))"

text \<open>
  Modelled from the spec: \<^verbatim>\<open>main_util.save_on_master\<close> and \<^verbatim>\<open>main_util.is_main_process\<close>
  are not among the sources. The checkpoint store "serializes" the snapshot; the helper,
  as its name says, does so on the main process only.
\<close>

definition is_main_process :: "sys \<Rightarrow> bool" where
  "is_main_process s = main_process s"

definition save_on_master :: "ckpt \<Rightarrow> string \<Rightarrow> sys \<Rightarrow> sys" where
  "save_on_master obj p s =
     (let s1 = emit (EvSaveOnMaster obj p) s
      in if is_main_process s1 then torch_save obj p s1 else s1)"

text \<open>\<^verbatim>\<open>file_util.make_parent_dirs\<close> creates directories; they hold no checkpoint, so only
  the call is logged.\<close>

definition make_parent_dirs :: "string \<Rightarrow> sys \<Rightarrow> sys" where
  "make_parent_dirs p s = emit (EvMakeParentDirs p) s"

text \<open>\<^verbatim>\<open>save_ckpt(model, optimizer, lr_scheduler, best_value, config, args, output_file_path)\<close>.\<close>

definition save_ckpt ::
  "model_obj \<Rightarrow> state_dict \<Rightarrow> state_dict \<Rightarrow> real \<Rightarrow> config \<Rightarrow> args \<Rightarrow> string \<Rightarrow> sys \<Rightarrow> sys" where
  "save_ckpt model optimizer lr_scheduler best_value cfg a output_file_path s =
     (let s1 = make_parent_dirs output_file_path s;
          model_state_dict = (case model of
                                DistributedDataParallel m \<Rightarrow> state_dict_of (Plain m)
                              | Plain m \<Rightarrow> state_dict_of model)
      in save_on_master
           [(''model'', PStateDict model_state_dict),
            (''optimizer'', PStateDict optimizer),
            (''best_value'', PFloat best_value),
            (''lr_scheduler'', PStateDict lr_scheduler),
            (''config'', PConfig cfg),
            (''args'', PArgs a)]
           output_file_path s1)"

section \<open>Training loop: one epoch\<close>

text \<open>
  Modelled from the spec: \<^verbatim>\<open>MetricLogger.log_every\<close> of \<^verbatim>\<open>structure.logger\<close> is not among
  the sources. The loops "log running metrics" while they go over the batches:
  \<^verbatim>\<open>log_every\<close> yields every batch of the loader once, in the loader's order, and logs
  with the given interval under the given header.
\<close>

definition log_every :: "batch list \<Rightarrow> int \<Rightarrow> header \<Rightarrow> sys \<Rightarrow> batch list \<times> sys" where
  "log_every iterable interval h s = (iterable, emit (EvLogEvery h interval) s)"

text \<open>A \<^verbatim>\<open>for\<close> loop whose body may raise: the first exception ends the loop.\<close>

primrec fold_raising :: "('a \<Rightarrow> 's \<Rightarrow> (error \<times> 's) + 's) \<Rightarrow> 'a list \<Rightarrow> 's \<Rightarrow> (error \<times> 's) + 's" where
  "fold_raising f [] st = Inr st"
| "fold_raising f (x # xs) st =
     (case f x st of Inl raised \<Rightarrow> Inl raised | Inr st' \<Rightarrow> fold_raising f xs st')"

text \<open>
  The body of the loop of \<^verbatim>\<open>distill_one_epoch\<close> for one batch. The distillation box
  holds the student; its parameters change at the optimizer step. With \<^verbatim>\<open>use_apex\<close> set,
  \<^verbatim>\<open>amp.scale_loss\<close> is an attribute access on \<^verbatim>\<open>None\<close> when apex could not be imported,
  which raises \<^verbatim>\<open>AttributeError\<close> after the forward pass and \<^verbatim>\<open>zero_grad\<close>.
\<close>

definition train_batch ::
  "framework \<Rightarrow> bool \<Rightarrow> batch \<Rightarrow> model_obj \<times> state_dict \<times> sys
    \<Rightarrow> (error \<times> model_obj \<times> state_dict \<times> sys) + (model_obj \<times> state_dict \<times> sys)" where
  "train_batch fw use_apex b st =
     (case st of (student_model, optimizer, s) \<Rightarrow>
        (let s1 = emit (EvBoxForward b) s;
             s2 = emit EvZeroGrad s1
         in if use_apex \<and> \<not> amp_available s2
            then Inl (AttributeError, student_model, optimizer, s2)
            else (let s3 = emit (EvBackward use_apex) s2;
                      s4 = emit EvOptimizerStep s3;
                      upd = fw_train_cycle fw use_apex b
                              (params (module_of student_model), optimizer)
                  in Inr (map_module (\<lambda>m. m\<lparr>params := fst upd\<rparr>) student_model, snd upd, s4))))"

text \<open>\<^verbatim>\<open>distill_one_epoch(distillation_box, train_data_loader, optimizer, device, epoch,
  interval, use_apex)\<close>.\<close>

definition distill_one_epoch ::
  "framework \<Rightarrow> model_obj \<Rightarrow> batch list \<Rightarrow> state_dict \<Rightarrow> int \<Rightarrow> int \<Rightarrow> bool \<Rightarrow> sys
    \<Rightarrow> (error \<times> model_obj \<times> state_dict \<times> sys) + (model_obj \<times> state_dict \<times> sys)" where
  "distill_one_epoch fw student_model train_data_loader optimizer epoch interval use_apex s =
     (case log_every train_data_loader interval (EpochHeader epoch) s of
        (batches, s0) \<Rightarrow>
          fold_raising (train_batch fw use_apex) batches (student_model, optimizer, s0))"

section \<open>Evaluator\<close>

text \<open>
  Modelled from the spec: \<^verbatim>\<open>main_util.compute_accuracy\<close> is not among the sources. Top-k
  accuracy is the "fraction of samples for which the true label is among the k
  highest-scored predictions": the label is among them when fewer than k classes score
  strictly higher than it. The fraction is taken over the batch.
\<close>

definition in_topk :: "nat \<Rightarrow> real list \<Rightarrow> nat \<Rightarrow> bool" where
  "in_topk k scores label =
     (label < length scores \<and> length (filter (\<lambda>x. scores ! label < x) scores) < k)"

definition hits :: "nat \<Rightarrow> (real list \<times> nat) list \<Rightarrow> nat" where
  "hits k rows = length (filter (\<lambda>(scores, label). in_topk k scores label) rows)"

definition compute_accuracy :: "real list list \<Rightarrow> nat list \<Rightarrow> real \<times> real" where
  "compute_accuracy output target =
     (real (hits 1 (zip output target)) / real (length output),
      real (hits 5 (zip output target)) / real (length output))"

text \<open>
  Modelled from the spec: the meters of \<^verbatim>\<open>structure.logger\<close> (\<^verbatim>\<open>MetricLogger\<close>,
  \<^verbatim>\<open>SmoothedValue\<close>) are not among the sources. A meter tracks a running average weighted by the number of samples,
  and the logger "aggregates across distributed workers": synchronising adds up the sums
  and the counts of all workers before the average is taken. The average of a meter that
  saw no sample is not defined by the program and no result below relies on it.
\<close>

record smoothed_value =
  sv_total :: real
  sv_count :: nat

definition sv_update :: "real \<Rightarrow> nat \<Rightarrow> smoothed_value \<Rightarrow> smoothed_value" where
  "sv_update v n m = m\<lparr>sv_total := sv_total m + v * real n, sv_count := sv_count m + n\<rparr>"

definition global_avg :: "smoothed_value \<Rightarrow> real" where
  "global_avg m = sv_total m / real (sv_count m)"

record metric_logger =
  meter_acc1 :: smoothed_value
  meter_acc5 :: smoothed_value

definition new_metric_logger :: metric_logger where
  "new_metric_logger =
     \<lparr>meter_acc1 = \<lparr>sv_total = 0, sv_count = 0\<rparr>, meter_acc5 = \<lparr>sv_total = 0, sv_count = 0\<rparr>\<rparr>"

definition sv_merge :: "smoothed_value list \<Rightarrow> smoothed_value" where
  "sv_merge ms = \<lparr>sv_total = sum_list (map sv_total ms), sv_count = sum_list (map sv_count ms)\<rparr>"

definition synchronize_between_processes :: "metric_logger list \<Rightarrow> metric_logger \<Rightarrow> metric_logger" where
  "synchronize_between_processes peers ml =
     \<lparr>meter_acc1 = sv_merge (map meter_acc1 (ml # peers)),
      meter_acc5 = sv_merge (map meter_acc5 (ml # peers))\<rparr>"

text \<open>The meter updates of the loop body of \<^verbatim>\<open>evaluate\<close> for one batch.\<close>

definition eval_batch_meters :: "framework \<Rightarrow> model_obj \<Rightarrow> batch \<Rightarrow> metric_logger \<Rightarrow> metric_logger" where
  "eval_batch_meters fw model b ml =
     (let image = map fst b;
          target = map snd b;
          output = map (fw_model fw (params (module_of model))) image;
          acc = compute_accuracy output target;
          batch_size = length image
      in ml\<lparr>meter_acc1 := sv_update (fst acc) batch_size (meter_acc1 ml),
            meter_acc5 := sv_update (snd acc) batch_size (meter_acc5 ml)\<rparr>)"

definition eval_batch ::
  "framework \<Rightarrow> model_obj \<Rightarrow> batch \<Rightarrow> metric_logger \<times> sys \<Rightarrow> metric_logger \<times> sys" where
  "eval_batch fw model b st =
     (case st of (ml, s) \<Rightarrow>
        (eval_batch_meters fw model b ml, emit (EvModelForward b (grad_enabled s)) s))"

text \<open>Every worker runs the same loop over its own shard of the data with a replica of
  the model; this is the logger a peer brings to the synchronisation.\<close>

definition peer_logger :: "framework \<Rightarrow> model_obj \<Rightarrow> batch list \<Rightarrow> metric_logger" where
  "peer_logger fw model shard = fold (eval_batch_meters fw model) shard new_metric_logger"

definition set_num_threads :: "nat \<Rightarrow> sys \<Rightarrow> sys" where
  "set_num_threads n s = emit (EvSetNumThreads n) (s\<lparr>torch_num_threads := n\<rparr>)"

text \<open>
  \<^verbatim>\<open>evaluate(model, data_loader, device, interval, split_name, title)\<close>, with the shards
  of the other workers as \<open>peers\<close> (empty when the run is not distributed). The decorator
  \<^verbatim>\<open>@torch.no_grad()\<close> and the inner \<^verbatim>\<open>with torch.no_grad()\<close> switch the gradient mode off
  and put the previous mode back when they are left. The result is the returned accuracy,
  the model and the process state.
\<close>

definition evaluate ::
  "framework \<Rightarrow> model_obj \<Rightarrow> batch list \<Rightarrow> batch list list \<Rightarrow> int \<Rightarrow> string \<Rightarrow> sys
    \<Rightarrow> real \<times> model_obj \<times> sys" where
  "evaluate fw model data_loader peers interval split_name s =
     (let outer_mode = grad_enabled s;
          s0 = s\<lparr>grad_enabled := False\<rparr>;
          num_threads = torch_num_threads s0;
          s1 = set_num_threads 1 s0;
          model1 = set_mode False model;
          s2 = emit EvModelEval s1;
          inner_mode = grad_enabled s2;
          logged = log_every data_loader interval (SplitHeader split_name)
                     (s2\<lparr>grad_enabled := False\<rparr>);
          looped = fold (eval_batch fw model1) (fst logged) (new_metric_logger, snd logged);
          s4 = (snd looped)\<lparr>grad_enabled := inner_mode\<rparr>;
          metric_logger =
            synchronize_between_processes (map (peer_logger fw model1) peers) (fst looped);
          s5 = emit EvSynchronize s4;
          top1_accuracy = global_avg (meter_acc1 metric_logger);
          top5_accuracy = global_avg (meter_acc5 metric_logger);
          s6 = emit (EvPrintAcc top1_accuracy top5_accuracy) s5;
          s7 = set_num_threads num_threads s6
      in (global_avg (meter_acc1 metric_logger), model1, s7\<lparr>grad_enabled := outer_mode\<rparr>))"

section \<open>Training loop: the epochs\<close>

text \<open>Lines 151 to 154 of \<^verbatim>\<open>distill\<close>: the logging interval, from the configured one and
  the training loader (\<^verbatim>\<open>//\<close> is floor division, as \<open>div\<close> is).\<close>

definition distill_interval :: "int \<Rightarrow> batch list \<Rightarrow> int" where
  "distill_interval configured train_data_loader =
     (if configured \<le> 0
      then (let num_batches = int (length train_data_loader)
            in if num_batches \<ge> 20 then num_batches div 20 else 1)
      else configured)"

text \<open>The variables of \<^verbatim>\<open>distill\<close> that live across epochs. The teacher is only ever put
  into eval mode, so its wrapper does not matter.\<close>

record loop_state =
  ls_student :: model_obj
  ls_teacher :: module
  ls_optimizer :: state_dict
  ls_lr_scheduler :: state_dict
  ls_best :: real
  ls_sys :: sys

text \<open>
  The body of the epoch loop (lines 160 to 174). \<^verbatim>\<open>student_model_without_ddp\<close> is bound
  before the loop, but it is a reference to the module that training changes, so the
  checkpoint holds the parameters of the moment of saving. An exception of the training
  pass leaves the epoch at once.
\<close>

definition distill_epoch ::
  "framework \<Rightarrow> batch list \<Rightarrow> batch list \<Rightarrow> batch list list \<Rightarrow> bool \<Rightarrow> config \<Rightarrow> args \<Rightarrow> int
    \<Rightarrow> int \<Rightarrow> loop_state \<Rightarrow> (error \<times> loop_state) + loop_state" where
  "distill_epoch fw train_data_loader val_data_loader val_peers distributed cfg a interval epoch ls =
     (let s1 = (if distributed then emit (EvSetEpoch epoch) (ls_sys ls) else ls_sys ls);
          teacher1 = (ls_teacher ls)\<lparr>training := False\<rparr>;
          s2 = emit EvTeacherEval s1;
          student1 = set_mode True (ls_student ls);
          s3 = emit EvStudentTrain s2
      in case distill_one_epoch fw student1 train_data_loader (ls_optimizer ls)
                epoch interval (args_apex a) s3 of
           Inl (e, student2, optimizer2, s4) \<Rightarrow>
             Inl (e, ls\<lparr>ls_student := student2, ls_teacher := teacher1,
                        ls_optimizer := optimizer2, ls_sys := s4\<rparr>)
         | Inr train_pass \<Rightarrow>
            (let eval_pass = evaluate fw (fst train_pass) val_data_loader val_peers interval
                               ''Validation'' (snd (snd train_pass));
                 val_top1_accuracy = fst eval_pass;
                 student3 = fst (snd eval_pass);
                 s5 = snd (snd eval_pass);
                 student_model_without_ddp =
                   (case student3 of DistributedDataParallel m \<Rightarrow> Plain m | Plain m \<Rightarrow> student3);
                 updating = (val_top1_accuracy > ls_best ls \<and> is_main_process s5);
                 best_val_top1_accuracy = (if updating then val_top1_accuracy else ls_best ls);
                 s6 = (if updating
                       then save_ckpt student_model_without_ddp (fst (snd train_pass))
                              (ls_lr_scheduler ls) best_val_top1_accuracy cfg a (mimic_ckpt cfg) s5
                       else s5);
                 stepped = fw_scheduler_step fw (ls_lr_scheduler ls, fst (snd train_pass))
             in Inr \<lparr>ls_student = student3, ls_teacher = teacher1, ls_optimizer = snd stepped,
                     ls_lr_scheduler = fst stepped, ls_best = best_val_top1_accuracy,
                     ls_sys = emit EvSchedulerStep s6\<rparr>))"

text \<open>\<^verbatim>\<open>for epoch in range(start_epoch, train_config['epoch'])\<close>, over the list of epochs.\<close>

definition distill_loop ::
  "framework \<Rightarrow> batch list \<Rightarrow> batch list \<Rightarrow> batch list list \<Rightarrow> bool \<Rightarrow> config \<Rightarrow> args \<Rightarrow> int
    \<Rightarrow> int list \<Rightarrow> loop_state \<Rightarrow> (error \<times> loop_state) + loop_state" where
  "distill_loop fw train_data_loader val_data_loader val_peers distributed cfg a interval epochs ls =
     fold_raising
       (distill_epoch fw train_data_loader val_data_loader val_peers distributed cfg a interval)
       epochs ls"

text \<open>
  Lines 141 to 150 of \<^verbatim>\<open>distill\<close>: the optimizer and the scheduler are built, the best
  accuracy starts at 0.0, and an existing checkpoint is loaded into the optimizer and the
  scheduler. The first component of the tuple that \<^verbatim>\<open>load_ckpt\<close> returns is bound to
  \<^verbatim>\<open>best_val_map\<close>, which nothing reads; unpacking a tuple that has not three components
  raises \<^verbatim>\<open>ValueError\<close>.
\<close>

definition distill_init ::
  "framework \<Rightarrow> module \<Rightarrow> model_obj \<Rightarrow> config \<Rightarrow> sys \<Rightarrow> (error \<times> loop_state) + loop_state" where
  "distill_init fw teacher_model student_model cfg s =
     (let ckpt_file_path = mimic_ckpt cfg;
          optimizer = fw_get_optimizer fw cfg student_model;
          lr_scheduler = fw_get_scheduler fw cfg optimizer;
          best_val_top1_accuracy = 0.0
      in if check_if_exists s ckpt_file_path
         then (case load_ckpt fw s ckpt_file_path None (Some optimizer) (Some lr_scheduler) True of
                 Inl (e, model', optimizer', lr_scheduler') \<Rightarrow>
                   Inl (e, \<lparr>ls_student = student_model, ls_teacher = teacher_model,
                             ls_optimizer = (case optimizer' of None \<Rightarrow> optimizer | Some d \<Rightarrow> d),
                             ls_lr_scheduler =
                               (case lr_scheduler' of None \<Rightarrow> lr_scheduler | Some d \<Rightarrow> d),
                             ls_best = best_val_top1_accuracy, ls_sys = s\<rparr>)
               | Inr (ret, model', optimizer', lr_scheduler') \<Rightarrow>
                  (case ret of
                     [best_val_map, x, y] \<Rightarrow>
                       Inr \<lparr>ls_student = student_model, ls_teacher = teacher_model,
                            ls_optimizer = (case optimizer' of None \<Rightarrow> optimizer | Some d \<Rightarrow> d),
                            ls_lr_scheduler =
                              (case lr_scheduler' of None \<Rightarrow> lr_scheduler | Some d \<Rightarrow> d),
                            ls_best = best_val_top1_accuracy, ls_sys = s\<rparr>
                   | _ \<Rightarrow>
                       Inl (ValueError,
                            \<lparr>ls_student = student_model, ls_teacher = teacher_model,
                             ls_optimizer = (case optimizer' of None \<Rightarrow> optimizer | Some d \<Rightarrow> d),
                             ls_lr_scheduler =
                               (case lr_scheduler' of None \<Rightarrow> lr_scheduler | Some d \<Rightarrow> d),
                             ls_best = best_val_top1_accuracy, ls_sys = s\<rparr>)))
         else Inr \<lparr>ls_student = student_model, ls_teacher = teacher_model,
                   ls_optimizer = optimizer, ls_lr_scheduler = lr_scheduler,
                   ls_best = best_val_top1_accuracy, ls_sys = s\<rparr>)"

text \<open>\<^verbatim>\<open>dist.barrier()\<close> (line 176) is called whether or not the run is distributed; it
  raises when the default process group has not been initialised (\<^verbatim>\<open>RuntimeError\<close>, in
  later versions of the framework \<^verbatim>\<open>ValueError\<close>).\<close>

definition barrier :: "sys \<Rightarrow> (error \<times> sys) + sys" where
  "barrier s =
     (let s1 = emit EvBarrier s
      in if dist_initialized s1 then Inr s1 else Inl (RuntimeError, s1))"

text \<open>
  \<^verbatim>\<open>distill(teacher_model, student_model, train_data_loader, val_data_loader, device,
  distributed, start_epoch, config, args)\<close>. Python returns nothing; the model returns the
  final values of the variables, so that the run can be observed.
\<close>

definition distill ::
  "framework \<Rightarrow> module \<Rightarrow> model_obj \<Rightarrow> batch list \<Rightarrow> batch list \<Rightarrow> batch list list \<Rightarrow> bool \<Rightarrow> int
    \<Rightarrow> config \<Rightarrow> args \<Rightarrow> sys \<Rightarrow> (error \<times> loop_state) + loop_state" where
  "distill fw teacher_model student_model train_data_loader val_data_loader val_peers distributed
     start_epoch cfg a s =
     (case distill_init fw teacher_model student_model cfg s of
        Inl raised \<Rightarrow> Inl raised
      | Inr ls0 \<Rightarrow>
         (let interval = distill_interval (train_interval cfg) train_data_loader
          in case distill_loop fw train_data_loader val_data_loader val_peers distributed cfg a
                    interval [start_epoch..train_epoch cfg - 1] ls0 of
               Inl raised \<Rightarrow> Inl raised
             | Inr ls1 \<Rightarrow>
                (case barrier (ls_sys ls1) of
                   Inl (e, s') \<Rightarrow> Inl (e, ls1\<lparr>ls_sys := s'\<rparr>)
                 | Inr s' \<Rightarrow> Inr (ls1\<lparr>ls_sys := s'\<rparr>))))"

section \<open>Observing a run\<close>

text \<open>The calls that a step added to the log, and what they show: the top-1 and top-5
  accuracies that evaluations reported, the paths handed to \<^verbatim>\<open>save_on_master\<close>, the
  intervals handed to \<^verbatim>\<open>log_every\<close>, the number of optimizer steps, and the calls that
  compute or use gradients (a forward pass counts when the gradient mode is on).\<close>

definition new_events :: "sys \<Rightarrow> sys \<Rightarrow> event list" where
  "new_events s s' = drop (length (events s)) (events s')"

definition val_accs :: "event list \<Rightarrow> real list" where
  "val_accs evs = concat (map (\<lambda>e. case e of EvPrintAcc top1 top5 \<Rightarrow> [top1] | _ \<Rightarrow> []) evs)"

definition top5_accs :: "event list \<Rightarrow> real list" where
  "top5_accs evs = concat (map (\<lambda>e. case e of EvPrintAcc top1 top5 \<Rightarrow> [top5] | _ \<Rightarrow> []) evs)"

definition saves :: "event list \<Rightarrow> string list" where
  "saves evs = concat (map (\<lambda>e. case e of EvSaveOnMaster obj p \<Rightarrow> [p] | _ \<Rightarrow> []) evs)"

definition log_intervals :: "event list \<Rightarrow> int list" where
  "log_intervals evs = concat (map (\<lambda>e. case e of EvLogEvery h i \<Rightarrow> [i] | _ \<Rightarrow> []) evs)"

definition optimizer_steps :: "event list \<Rightarrow> nat" where
  "optimizer_steps evs = length (filter (\<lambda>e. e = EvOptimizerStep) evs)"

definition gradient_events :: "event list \<Rightarrow> event list" where
  "gradient_events evs =
     filter (\<lambda>e. case e of
                   EvBoxForward b \<Rightarrow> True
                 | EvZeroGrad \<Rightarrow> True
                 | EvBackward scaled \<Rightarrow> True
                 | EvOptimizerStep \<Rightarrow> True
                 | EvModelForward b grad \<Rightarrow> grad
                 | _ \<Rightarrow> False) evs"

text \<open>The \<^verbatim>\<open>best_value\<close> entry of the checkpoint file at a path, if there is one.\<close>

definition stored_best :: "sys \<Rightarrow> string \<Rightarrow> pyval option" where
  "stored_best s p = (case files s p of None \<Rightarrow> None | Some ck \<Rightarrow> map_of ck ''best_value'')"

definition emits :: "event list \<Rightarrow> sys \<Rightarrow> sys" where
  "emits es s = s\<lparr>events := events s @ es\<rparr>"

section \<open>What the spec says a run looks like\<close>

text \<open>One forward/backward/optimizer-step cycle, a training pass, an evaluation pass, a
  checkpoint save and a whole epoch, as sequences of calls. The outcome of an epoch is the
  top-1 and the top-5 accuracy of its evaluation and whether it saved a checkpoint.\<close>

definition cycle_events :: "bool \<Rightarrow> batch \<Rightarrow> event list" where
  "cycle_events use_apex b = [EvBoxForward b, EvZeroGrad, EvBackward use_apex, EvOptimizerStep]"

definition train_events :: "int \<Rightarrow> int \<Rightarrow> bool \<Rightarrow> batch list \<Rightarrow> event list" where
  "train_events epoch interval use_apex loader =
     EvLogEvery (EpochHeader epoch) interval # concat (map (cycle_events use_apex) loader)"

definition eval_events :: "string \<Rightarrow> int \<Rightarrow> batch list \<Rightarrow> nat \<Rightarrow> real \<Rightarrow> real \<Rightarrow> event list" where
  "eval_events split_name interval loader n top1 top5 =
     [EvSetNumThreads 1, EvModelEval, EvLogEvery (SplitHeader split_name) interval]
     @ map (\<lambda>b. EvModelForward b False) loader
     @ [EvSynchronize, EvPrintAcc top1 top5, EvSetNumThreads n]"

definition snapshot ::
  "state_dict \<Rightarrow> state_dict \<Rightarrow> state_dict \<Rightarrow> real \<Rightarrow> config \<Rightarrow> args \<Rightarrow> ckpt" where
  "snapshot model_sd optimizer_sd scheduler_sd best_value cfg a =
     [(''model'', PStateDict model_sd),
      (''optimizer'', PStateDict optimizer_sd),
      (''best_value'', PFloat best_value),
      (''lr_scheduler'', PStateDict scheduler_sd),
      (''config'', PConfig cfg),
      (''args'', PArgs a)]"

definition save_events :: "ckpt \<Rightarrow> string \<Rightarrow> event list" where
  "save_events obj p = [EvMakeParentDirs p, EvSaveOnMaster obj p]"

definition epoch_events ::
  "bool \<Rightarrow> batch list \<Rightarrow> batch list \<Rightarrow> int \<Rightarrow> bool \<Rightarrow> nat \<Rightarrow> string \<Rightarrow> int
    \<Rightarrow> real \<times> real \<times> ckpt option \<Rightarrow> event list" where
  "epoch_events distributed train_loader val_loader interval use_apex n p epoch outcome =
     (if distributed then [EvSetEpoch epoch] else [])
     @ [EvTeacherEval, EvStudentTrain]
     @ train_events epoch interval use_apex train_loader
     @ eval_events ''Validation'' interval val_loader n (fst outcome) (fst (snd outcome))
     @ (case snd (snd outcome) of None \<Rightarrow> [] | Some obj \<Rightarrow> save_events obj p)
     @ [EvSchedulerStep]"

text \<open>Accuracy as the spec defines it. \<open>scored\<close> pairs the scores that the model gives
  each sample with the sample's label; \<open>batch_accuracy\<close> is the top-k accuracy of one
  batch, \<open>weighted_average\<close> the average of the batch accuracies weighted by batch size,
  and \<open>sample_fraction\<close> the fraction of all samples whose label is among the k
  highest-scored predictions.\<close>

definition scored :: "framework \<Rightarrow> state_dict \<Rightarrow> batch \<Rightarrow> (real list \<times> nat) list" where
  "scored fw p b = map (\<lambda>(img, label). (fw_model fw p img, label)) b"

definition batch_accuracy :: "nat \<Rightarrow> framework \<Rightarrow> state_dict \<Rightarrow> batch \<Rightarrow> real" where
  "batch_accuracy k fw p b = real (hits k (scored fw p b)) / real (length b)"

definition weighted_average :: "nat \<Rightarrow> framework \<Rightarrow> state_dict \<Rightarrow> batch list \<Rightarrow> real" where
  "weighted_average k fw p bs =
     (\<Sum>b\<leftarrow>bs. batch_accuracy k fw p b * real (length b)) / (\<Sum>b\<leftarrow>bs. real (length b))"

definition sample_fraction :: "nat \<Rightarrow> framework \<Rightarrow> state_dict \<Rightarrow> batch list \<Rightarrow> real" where
  "sample_fraction k fw p bs =
     real (hits k (scored fw p (concat bs))) / real (length (concat bs))"

text \<open>The logger of an evaluation after synchronisation.\<close>

definition eval_logger ::
  "framework \<Rightarrow> model_obj \<Rightarrow> batch list \<Rightarrow> batch list list \<Rightarrow> metric_logger" where
  "eval_logger fw model data_loader peers =
     synchronize_between_processes (map (peer_logger fw model) peers)
       (peer_logger fw model data_loader)"

text \<open>The quantities of one epoch, from the state at its start: the student's parameters
  and the optimizer's state after the training pass, the accuracy that the evaluation then
  reports, and whether the epoch updates the checkpoint.\<close>

definition trained ::
  "framework \<Rightarrow> batch list \<Rightarrow> args \<Rightarrow> loop_state \<Rightarrow> state_dict \<times> state_dict" where
  "trained fw train_loader a ls =
     fold (fw_train_cycle fw (args_apex a)) train_loader
       (params (module_of (ls_student ls)), ls_optimizer ls)"

definition epoch_accuracy ::
  "nat \<Rightarrow> framework \<Rightarrow> batch list \<Rightarrow> batch list \<Rightarrow> batch list list \<Rightarrow> args \<Rightarrow> loop_state \<Rightarrow> real" where
  "epoch_accuracy k fw train_loader val_loader val_peers a ls =
     weighted_average k fw (fst (trained fw train_loader a ls)) (val_loader @ concat val_peers)"

definition epoch_updates ::
  "framework \<Rightarrow> batch list \<Rightarrow> batch list \<Rightarrow> batch list list \<Rightarrow> args \<Rightarrow> loop_state \<Rightarrow> bool" where
  "epoch_updates fw train_loader val_loader val_peers a ls =
     (ls_best ls < epoch_accuracy 1 fw train_loader val_loader val_peers a ls
        \<and> main_process (ls_sys ls))"

definition epoch_snapshot ::
  "framework \<Rightarrow> batch list \<Rightarrow> batch list \<Rightarrow> batch list list \<Rightarrow> config \<Rightarrow> args \<Rightarrow> loop_state \<Rightarrow> ckpt" where
  "epoch_snapshot fw train_loader val_loader val_peers cfg a ls =
     snapshot (fst (trained fw train_loader a ls)) (snd (trained fw train_loader a ls))
       (ls_lr_scheduler ls) (epoch_accuracy 1 fw train_loader val_loader val_peers a ls) cfg a"

definition epoch_outcome ::
  "framework \<Rightarrow> batch list \<Rightarrow> batch list \<Rightarrow> batch list list \<Rightarrow> config \<Rightarrow> args \<Rightarrow> loop_state
    \<Rightarrow> real \<times> real \<times> ckpt option" where
  "epoch_outcome fw train_loader val_loader val_peers cfg a ls =
     (epoch_accuracy 1 fw train_loader val_loader val_peers a ls,
      epoch_accuracy 5 fw train_loader val_loader val_peers a ls,
      if epoch_updates fw train_loader val_loader val_peers a ls
      then Some (epoch_snapshot fw train_loader val_loader val_peers cfg a ls) else None)"

text \<open>
  What one epoch does to the variables of \<^verbatim>\<open>distill\<close>, said outright. The student has
  the parameters that the training cycles over all batches leave, and is in eval mode; the
  teacher is in eval mode; the scheduler has stepped, on the optimizer as training left
  it; the running best is the accuracy of the epoch if that is an update; the checkpoint
  file holds the snapshot of the epoch if that is an update; and the calls of the epoch
  are appended to the log.
\<close>

definition epoch_effect ::
  "framework \<Rightarrow> batch list \<Rightarrow> batch list \<Rightarrow> batch list list \<Rightarrow> bool \<Rightarrow> config \<Rightarrow> args \<Rightarrow> int
    \<Rightarrow> int \<Rightarrow> loop_state \<Rightarrow> loop_state" where
  "epoch_effect fw train_loader val_loader val_peers distributed cfg a interval epoch ls =
     \<lparr>ls_student =
        set_mode False
          (map_module (\<lambda>m. m\<lparr>params := fst (trained fw train_loader a ls)\<rparr>) (ls_student ls)),
      ls_teacher = (ls_teacher ls)\<lparr>training := False\<rparr>,
      ls_optimizer =
        snd (fw_scheduler_step fw (ls_lr_scheduler ls, snd (trained fw train_loader a ls))),
      ls_lr_scheduler =
        fst (fw_scheduler_step fw (ls_lr_scheduler ls, snd (trained fw train_loader a ls))),
      ls_best =
        (if epoch_updates fw train_loader val_loader val_peers a ls
         then epoch_accuracy 1 fw train_loader val_loader val_peers a ls else ls_best ls),
      ls_sys =
        (ls_sys ls)
          \<lparr>files :=
             (if epoch_updates fw train_loader val_loader val_peers a ls
              then (files (ls_sys ls))
                     (mimic_ckpt cfg \<mapsto> epoch_snapshot fw train_loader val_loader val_peers cfg a ls)
              else files (ls_sys ls)),
           events :=
             events (ls_sys ls)
             @ epoch_events distributed train_loader val_loader interval (args_apex a)
                 (torch_num_threads (ls_sys ls)) (mimic_ckpt cfg) epoch
                 (epoch_outcome fw train_loader val_loader val_peers cfg a ls)\<rparr>\<rparr>"

text \<open>The epochs of a list, one after the other, and the calls they log.\<close>

definition run_epochs ::
  "framework \<Rightarrow> batch list \<Rightarrow> batch list \<Rightarrow> batch list list \<Rightarrow> bool \<Rightarrow> config \<Rightarrow> args \<Rightarrow> int
    \<Rightarrow> int list \<Rightarrow> loop_state \<Rightarrow> loop_state" where
  "run_epochs fw train_loader val_loader val_peers distributed cfg a interval epochs ls =
     fold (epoch_effect fw train_loader val_loader val_peers distributed cfg a interval) epochs ls"

fun loop_events ::
  "framework \<Rightarrow> batch list \<Rightarrow> batch list \<Rightarrow> batch list list \<Rightarrow> bool \<Rightarrow> config \<Rightarrow> args \<Rightarrow> int
    \<Rightarrow> int list \<Rightarrow> loop_state \<Rightarrow> event list" where
  "loop_events fw trn vld prs d cfg a i [] ls = []"
| "loop_events fw trn vld prs d cfg a i (e # es) ls =
     epoch_events d trn vld i (args_apex a) (torch_num_threads (ls_sys ls)) (mimic_ckpt cfg) e
       (epoch_outcome fw trn vld prs cfg a ls)
     @ loop_events fw trn vld prs d cfg a i es (epoch_effect fw trn vld prs d cfg a i e ls)"

text \<open>The epochs whose training pass the log shows, in the order of the log.\<close>

definition trained_epochs :: "event list \<Rightarrow> int list" where
  "trained_epochs evs =
     concat (map (\<lambda>e. case e of EvLogEvery (EpochHeader epoch) i \<Rightarrow> [epoch] | _ \<Rightarrow> []) evs)"

section \<open>A small run\<close>

text \<open>A framework whose model returns the image as the row of scores, whose training
  cycle adds 1 to every weight, whose scheduler step changes nothing and whose objects
  refuse to load what is not a state dict; a configuration with one epoch; a validation batch of two samples of which the
  first is classified correctly; a checkpoint left by an earlier run with a best value of
  0.9; and a file that holds the weights of a model and nothing else.\<close>

definition demo_framework :: framework where
  "demo_framework =
     \<lparr>fw_get_optimizer = (\<lambda>cfg model. [(''lr'', [0.1])]),
      fw_get_scheduler = (\<lambda>cfg opt. [(''last_epoch'', [0])]),
      fw_model = (\<lambda>p img. img),
      fw_train_cycle = (\<lambda>scaled b st. (map (\<lambda>(k, v). (k, map (\<lambda>x. x + 1) v)) (fst st), snd st)),
      fw_scheduler_step = (\<lambda>st. st),
      fw_module_load_other = (\<lambda>strict v m. (Some TypeError, m)),
      fw_optimizer_load_other = (\<lambda>v opt. (Some TypeError, opt)),
      fw_scheduler_load_other = (\<lambda>v sch. (Some TypeError, sch))\<rparr>"

definition demo_config :: config where
  "demo_config = \<lparr>train_epoch = 1, train_interval = 0, mimic_ckpt = ''student.pt''\<rparr>"

definition demo_args :: args where
  "demo_args =
     \<lparr>args_config = ''config.yaml'', args_device = ''cpu'', args_start_epoch = 0,
      args_sync_bn = False, args_test_only = False, args_student_only = False,
      args_apex = False, args_apex_opt_level = ''O1'', args_world_size = 1,
      args_dist_url = ''env://''\<rparr>"

definition demo_student :: model_obj where
  "demo_student = Plain \<lparr>params = [(''fc.weight'', [1])], training = False\<rparr>"

definition demo_teacher :: module where
  "demo_teacher = \<lparr>params = [(''fc.weight'', [2])], training = False\<rparr>"

definition demo_train :: "batch list" where
  "demo_train = [[([0.1, 0.9], 1)]]"

definition demo_val :: "batch list" where
  "demo_val = [[([0.1, 0.9], 1), ([0.9, 0.1], 1)]]"

definition demo_peers :: "batch list list" where
  "demo_peers = [[[([0.9, 0.1], 0)]]]"

definition demo_ckpt :: ckpt where
  "demo_ckpt =
     [(''model'', PStateDict [(''fc.weight'', [3])]),
      (''optimizer'', PStateDict [(''lr'', [0.01])]),
      (''best_value'', PFloat 0.9),
      (''lr_scheduler'', PStateDict [(''last_epoch'', [7])]),
      (''config'', PConfig demo_config),
      (''args'', PArgs demo_args)]"

definition demo_weights :: ckpt where
  "demo_weights = [(''model'', PStateDict [(''fc.weight'', [3])])]"

text \<open>A process state, from whether the process is the main one and the files on disk;
  apex is not installed and the process group is initialised.\<close>

definition demo_sys :: "bool \<Rightarrow> (string \<times> ckpt) list \<Rightarrow> sys" where
  "demo_sys main disk =
     \<lparr>files = map_of disk, torch_num_threads = 4, grad_enabled = True, main_process = main,
      amp_available = False, dist_initialized = True, events = []\<rparr>"

definition demo_init :: "bool \<Rightarrow> loop_state" where
  "demo_init main =
     \<lparr>ls_student = demo_student, ls_teacher = demo_teacher, ls_optimizer = [(''lr'', [0.1])],
      ls_lr_scheduler = [(''last_epoch'', [0])], ls_best = 0, ls_sys = demo_sys main []\<rparr>"

definition demo_resumed :: loop_state where
  "demo_resumed =
     \<lparr>ls_student = demo_student, ls_teacher = demo_teacher, ls_optimizer = [(''lr'', [0.01])],
      ls_lr_scheduler = [(''last_epoch'', [7])], ls_best = 0,
      ls_sys = demo_sys True [(''student.pt'', demo_ckpt)]\<rparr>"

section \<open>The call log\<close>

lemma emit_emits: "emit e s = emits [e] s"
  by (simp add: emit_def emits_def)

lemma emits_emits: "emits ys (emits xs s) = emits (xs @ ys) s"
  by (simp add: emits_def)

lemma emits_Nil: "emits [] s = s"
  by (simp add: emits_def)

lemma emits_fields:
  "events (emits xs s) = events s @ xs"
  "files (emits xs s) = files s"
  "torch_num_threads (emits xs s) = torch_num_threads s"
  "grad_enabled (emits xs s) = grad_enabled s"
  "main_process (emits xs s) = main_process s"
  "amp_available (emits xs s) = amp_available s"
  "dist_initialized (emits xs s) = dist_initialized s"
  by (simp_all add: emits_def)

lemma map_module_params_id: "map_module (\<lambda>m. m\<lparr>params := params (module_of st)\<rparr>) st = st"
  by (cases st) simp_all

lemma map_module_params_twice:
  "map_module (\<lambda>m. m\<lparr>params := q\<rparr>) (map_module (\<lambda>m. m\<lparr>params := p\<rparr>) st)
     = map_module (\<lambda>m. m\<lparr>params := q\<rparr>) st"
  by (cases st) simp_all

lemma params_map_module: "params (module_of (map_module (\<lambda>m. m\<lparr>params := p\<rparr>) st)) = p"
  by (cases st) simp_all

lemma train_batch_ok:
  assumes "use_apex \<longrightarrow> amp_available s"
  shows "train_batch fw use_apex b (st, opt, s) =
     Inr (map_module (\<lambda>m. m\<lparr>params := fst (fw_train_cycle fw use_apex b (params (module_of st), opt))\<rparr>) st,
          snd (fw_train_cycle fw use_apex b (params (module_of st), opt)),
          emits (cycle_events use_apex b) s)"
  using assms by (auto simp: train_batch_def Let_def emit_def emits_def cycle_events_def)

lemma train_batch_raises:
  assumes "use_apex" and "\<not> amp_available s"
  shows "train_batch fw use_apex b (st, opt, s) =
     Inl (AttributeError, st, opt, emits [EvBoxForward b, EvZeroGrad] s)"
  using assms by (simp add: train_batch_def Let_def emit_def emits_def)

lemma fold_train_batch:
  assumes "use_apex \<longrightarrow> amp_available s"
  shows "fold_raising (train_batch fw use_apex) bs (st, opt, s) =
     Inr (map_module (\<lambda>m. m\<lparr>params := fst (fold (fw_train_cycle fw use_apex) bs (params (module_of st), opt))\<rparr>) st,
          snd (fold (fw_train_cycle fw use_apex) bs (params (module_of st), opt)),
          emits (concat (map (cycle_events use_apex) bs)) s)"
  using assms
proof (induction bs arbitrary: st opt s)
  case Nil
  show ?case by (simp add: map_module_params_id emits_Nil)
next
  case (Cons b bs)
  have amp: "use_apex \<longrightarrow> amp_available (emits (cycle_events use_apex b) s)"
    using Cons.prems by (simp add: emits_fields)
  show ?case
    by (simp add: train_batch_ok [OF Cons.prems] Cons.IH [OF amp] params_map_module
        map_module_params_twice emits_emits)
qed

lemma distill_one_epoch_ok:
  assumes "(use_apex \<longrightarrow> amp_available s) \<or> loader = []"
  shows "distill_one_epoch fw st loader opt epoch interval use_apex s =
     Inr (map_module (\<lambda>m. m\<lparr>params := fst (fold (fw_train_cycle fw use_apex) loader (params (module_of st), opt))\<rparr>) st,
          snd (fold (fw_train_cycle fw use_apex) loader (params (module_of st), opt)),
          emits (train_events epoch interval use_apex loader) s)"
proof (cases "loader = []")
  case True
  then show ?thesis
    by (simp add: distill_one_epoch_def log_every_def map_module_params_id emit_emits
        train_events_def)
next
  case False
  with assms have "use_apex \<longrightarrow> amp_available (emit (EvLogEvery (EpochHeader epoch) interval) s)"
    by (simp add: emit_emits emits_fields)
  then show ?thesis
    by (simp add: distill_one_epoch_def log_every_def fold_train_batch emit_emits emits_emits
        train_events_def)
qed

lemma distill_one_epoch_raises:
  assumes "use_apex" and "\<not> amp_available s"
  shows "distill_one_epoch fw st (b # bs) opt epoch interval use_apex s =
     Inl (AttributeError, st, opt,
          emits [EvLogEvery (EpochHeader epoch) interval, EvBoxForward b, EvZeroGrad] s)"
  using assms
  by (simp add: distill_one_epoch_def log_every_def emit_emits emits_fields train_batch_raises
      emits_emits)

lemma eval_batch_unfold:
  "eval_batch fw m b (ml, s) =
     (eval_batch_meters fw m b ml, emits [EvModelForward b (grad_enabled s)] s)"
  by (simp add: eval_batch_def emit_emits)

lemma fold_eval_batch:
  "fold (eval_batch fw m) bs (ml, s) =
     (fold (eval_batch_meters fw m) bs ml, emits (map (\<lambda>b. EvModelForward b (grad_enabled s)) bs) s)"
proof (induction bs arbitrary: ml s)
  case Nil
  show ?case by (simp add: emits_Nil)
next
  case (Cons b bs)
  show ?case
    by (simp add: eval_batch_unfold Cons.IH emits_emits emits_fields)
qed

lemma eval_batch_meters_mode: "eval_batch_meters fw (set_mode b m) = eval_batch_meters fw m"
  by (cases m) (simp_all add: eval_batch_meters_def set_mode_def fun_eq_iff)

lemma peer_logger_mode: "peer_logger fw (set_mode b m) = peer_logger fw m"
  by (simp add: peer_logger_def eval_batch_meters_mode fun_eq_iff)

section \<open>Accuracy of an evaluation\<close>

lemma zip_output_target:
  "zip (map (f \<circ> fst) b) (map snd b) = map (\<lambda>(img, label). (f img, label)) b"
  by (induction b) auto

lemma compute_accuracy_batch:
  "compute_accuracy (map (fw_model fw (params (module_of m))) (map fst b)) (map snd b) =
     (batch_accuracy 1 fw (params (module_of m)) b, batch_accuracy 5 fw (params (module_of m)) b)"
  by (simp add: compute_accuracy_def batch_accuracy_def scored_def zip_output_target del: One_nat_def)

lemma eval_batch_meters_unfold:
  "eval_batch_meters fw m b ml =
     \<lparr>meter_acc1 = \<lparr>sv_total = sv_total (meter_acc1 ml) + batch_accuracy 1 fw (params (module_of m)) b * real (length b),
                     sv_count = sv_count (meter_acc1 ml) + length b\<rparr>,
      meter_acc5 = \<lparr>sv_total = sv_total (meter_acc5 ml) + batch_accuracy 5 fw (params (module_of m)) b * real (length b),
                     sv_count = sv_count (meter_acc5 ml) + length b\<rparr>\<rparr>"
  by (simp add: eval_batch_meters_def Let_def compute_accuracy_batch sv_update_def del: map_map One_nat_def)

lemma fold_eval_batch_meters:
  "fold (eval_batch_meters fw m) bs ml =
     \<lparr>meter_acc1 = \<lparr>sv_total = sv_total (meter_acc1 ml) + (\<Sum>b\<leftarrow>bs. batch_accuracy 1 fw (params (module_of m)) b * real (length b)),
                     sv_count = sv_count (meter_acc1 ml) + (\<Sum>b\<leftarrow>bs. length b)\<rparr>,
      meter_acc5 = \<lparr>sv_total = sv_total (meter_acc5 ml) + (\<Sum>b\<leftarrow>bs. batch_accuracy 5 fw (params (module_of m)) b * real (length b)),
                     sv_count = sv_count (meter_acc5 ml) + (\<Sum>b\<leftarrow>bs. length b)\<rparr>\<rparr>"
proof (induction bs arbitrary: ml)
  case Nil
  show ?case by simp
next
  case (Cons b bs)
  have step: "fold (eval_batch_meters fw m) (b # bs) ml
          = fold (eval_batch_meters fw m) bs (eval_batch_meters fw m b ml)"
    by simp
  show ?case
    unfolding step Cons.IH by (simp add: eval_batch_meters_unfold add.assoc)
qed

lemma peer_logger_unfold:
  "peer_logger fw m bs =
     \<lparr>meter_acc1 = \<lparr>sv_total = (\<Sum>b\<leftarrow>bs. batch_accuracy 1 fw (params (module_of m)) b * real (length b)),
                     sv_count = (\<Sum>b\<leftarrow>bs. length b)\<rparr>,
      meter_acc5 = \<lparr>sv_total = (\<Sum>b\<leftarrow>bs. batch_accuracy 5 fw (params (module_of m)) b * real (length b)),
                     sv_count = (\<Sum>b\<leftarrow>bs. length b)\<rparr>\<rparr>"
  by (simp add: peer_logger_def fold_eval_batch_meters new_metric_logger_def)

lemma sum_list_shards:
  fixes f :: "'a \<Rightarrow> 'b::comm_monoid_add"
  shows "(\<Sum>shard\<leftarrow>shards. \<Sum>b\<leftarrow>shard. f b) = (\<Sum>b\<leftarrow>concat shards. f b)"
  by (induction shards) simp_all

lemma eval_logger_unfold:
  "eval_logger fw m loader peers =
     \<lparr>meter_acc1 = \<lparr>sv_total = (\<Sum>b\<leftarrow>loader @ concat peers. batch_accuracy 1 fw (params (module_of m)) b * real (length b)),
                     sv_count = (\<Sum>b\<leftarrow>loader @ concat peers. length b)\<rparr>,
      meter_acc5 = \<lparr>sv_total = (\<Sum>b\<leftarrow>loader @ concat peers. batch_accuracy 5 fw (params (module_of m)) b * real (length b)),
                     sv_count = (\<Sum>b\<leftarrow>loader @ concat peers. length b)\<rparr>\<rparr>"
  by (simp add: eval_logger_def synchronize_between_processes_def sv_merge_def peer_logger_unfold
      comp_def sum_list_shards)

lemma real_sum_length: "real (sum_list (map length bs)) = (\<Sum>b\<leftarrow>bs. real (length b))"
  by (induction bs) simp_all

lemma global_avg_weighted:
  "global_avg (meter_acc1 (eval_logger fw m loader peers)) = weighted_average 1 fw (params (module_of m)) (loader @ concat peers)"
  "global_avg (meter_acc5 (eval_logger fw m loader peers)) = weighted_average 5 fw (params (module_of m)) (loader @ concat peers)"
  by (simp_all add: eval_logger_unfold global_avg_def weighted_average_def real_sum_length del: map_append)

lemma hits_append: "hits k (xs @ ys) = hits k xs + hits k ys"
  by (simp add: hits_def)

lemma scored_append: "scored fw m (xs @ ys) = scored fw m xs @ scored fw m ys"
  by (simp add: scored_def)

lemma weighted_sum_hits:
  assumes "\<forall>b\<in>set bs. b \<noteq> []"
  shows "(\<Sum>b\<leftarrow>bs. batch_accuracy k fw m b * real (length b)) = real (hits k (scored fw m (concat bs)))"
  using assms
proof (induction bs)
  case Nil
  show ?case by (simp add: hits_def scored_def)
next
  case (Cons b bs)
  then have "b \<noteq> []" by simp
  then have "batch_accuracy k fw m b * real (length b) = real (hits k (scored fw m b))"
    by (simp add: batch_accuracy_def)
  with Cons show ?case by (simp add: hits_append scored_append)
qed

lemma weighted_average_fraction:
  assumes "\<forall>b\<in>set bs. b \<noteq> []"
  shows "weighted_average k fw m bs = sample_fraction k fw m bs"
  using assms
  by (simp add: weighted_average_def sample_fraction_def weighted_sum_hits length_concat real_sum_length)

lemma weighted_average_nonneg: "0 \<le> weighted_average k fw m bs"
proof -
  have "0 \<le> (\<Sum>b\<leftarrow>bs. batch_accuracy k fw m b * real (length b))"
    by (rule sum_list_nonneg) (auto simp: batch_accuracy_def)
  moreover have "0 \<le> (\<Sum>b\<leftarrow>bs. real (length b))"
    by (rule sum_list_nonneg) auto
  ultimately show ?thesis
    unfolding weighted_average_def by (rule divide_nonneg_nonneg)
qed

lemma evaluate_unfold:
  "evaluate fw model loader peers interval split_name s =
     (global_avg (meter_acc1 (eval_logger fw model loader peers)),
      set_mode False model,
      emits (eval_events split_name interval loader (torch_num_threads s)
               (global_avg (meter_acc1 (eval_logger fw model loader peers)))
               (global_avg (meter_acc5 (eval_logger fw model loader peers)))) s)"
  by (simp add: evaluate_def Let_def log_every_def fold_eval_batch set_num_threads_def emit_def emits_def
      eval_events_def eval_logger_def peer_logger_mode eval_batch_meters_mode peer_logger_def)

section \<open>One epoch of the loop\<close>

lemma save_ckpt_unfold:
  "save_ckpt model opt sch best cfg a p s =
     (emits (save_events (snapshot (params (module_of model)) opt sch best cfg a) p) s)
       \<lparr>files := (if main_process s
                  then (files s)(p \<mapsto> snapshot (params (module_of model)) opt sch best cfg a)
                  else files s)\<rparr>"
  by (cases model)
     (simp_all add: save_ckpt_def save_on_master_def make_parent_dirs_def emit_def emits_def
        is_main_process_def torch_save_def Let_def save_events_def snapshot_def)

lemma set_mode_params: "params (module_of (set_mode b st)) = params (module_of st)"
  by (cases st) (simp_all add: set_mode_def)

lemma epoch_effect_best:
  "ls_best (epoch_effect fw trn vld prs d cfg a i e ls) =
     (if epoch_updates fw trn vld prs a ls then epoch_accuracy 1 fw trn vld prs a ls else ls_best ls)"
  by (simp add: epoch_effect_def)

lemma epoch_effect_events:
  "events (ls_sys (epoch_effect fw trn vld prs d cfg a i e ls)) =
     events (ls_sys ls) @
     epoch_events d trn vld i (args_apex a) (torch_num_threads (ls_sys ls)) (mimic_ckpt cfg) e
       (epoch_outcome fw trn vld prs cfg a ls)"
  by (simp add: epoch_effect_def)

lemma epoch_effect_frame:
  "torch_num_threads (ls_sys (epoch_effect fw trn vld prs d cfg a i e ls)) = torch_num_threads (ls_sys ls)"
  "grad_enabled (ls_sys (epoch_effect fw trn vld prs d cfg a i e ls)) = grad_enabled (ls_sys ls)"
  "main_process (ls_sys (epoch_effect fw trn vld prs d cfg a i e ls)) = main_process (ls_sys ls)"
  "amp_available (ls_sys (epoch_effect fw trn vld prs d cfg a i e ls)) = amp_available (ls_sys ls)"
  "dist_initialized (ls_sys (epoch_effect fw trn vld prs d cfg a i e ls)) = dist_initialized (ls_sys ls)"
  by (simp_all add: epoch_effect_def)

lemma epoch_effect_files:
  "files (ls_sys (epoch_effect fw trn vld prs d cfg a i e ls)) =
     (if epoch_updates fw trn vld prs a ls
      then (files (ls_sys ls))(mimic_ckpt cfg \<mapsto> epoch_snapshot fw trn vld prs cfg a ls)
      else files (ls_sys ls))"
  by (simp add: epoch_effect_def)

text \<open>An epoch whose training pass does not raise has exactly the effect that the spec
  describes.\<close>

lemma distill_epoch_ok:
  assumes "(args_apex a \<longrightarrow> amp_available (ls_sys ls)) \<or> trn = []"
  shows "distill_epoch fw trn vld prs d cfg a i e ls = Inr (epoch_effect fw trn vld prs d cfg a i e ls)"
  using assms
  by (cases "ls_student ls")
     (simp_all add: distill_epoch_def Let_def distill_one_epoch_ok evaluate_unfold
        save_ckpt_unfold global_avg_weighted set_mode_def epoch_events_def trained_def
        epoch_accuracy_def epoch_updates_def epoch_outcome_def epoch_snapshot_def
        epoch_effect_def is_main_process_def emit_def emits_def)

lemma distill_epoch_raises:
  assumes "args_apex a" and "\<not> amp_available (ls_sys ls)"
  shows "distill_epoch fw trn vld prs d cfg a i e (ls :: loop_state) =
           (case trn of
              [] \<Rightarrow> Inr (epoch_effect fw trn vld prs d cfg a i e ls)
            | b # bs \<Rightarrow>
                Inl (AttributeError,
                     ls\<lparr>ls_student := set_mode True (ls_student ls),
                        ls_teacher := (ls_teacher ls)\<lparr>training := False\<rparr>,
                        ls_sys := emits ((if d then [EvSetEpoch e] else [])
                                         @ [EvTeacherEval, EvStudentTrain,
                                            EvLogEvery (EpochHeader e) i, EvBoxForward b, EvZeroGrad])
                                    (ls_sys ls)\<rparr>))"
proof (cases trn)
  case Nil
  then show ?thesis by (simp add: distill_epoch_ok)
next
  case (Cons b bs)
  show ?thesis
    using assms
    by (simp add: Cons distill_epoch_def Let_def distill_one_epoch_raises emit_def emits_def)
qed

lemma distill_epoch_Inr:
  assumes "distill_epoch fw trn vld prs d cfg a i e ls = Inr ls'"
  shows "ls' = epoch_effect fw trn vld prs d cfg a i e ls"
proof (cases "(args_apex a \<longrightarrow> amp_available (ls_sys ls)) \<or> trn = []")
  case True
  with assms show ?thesis by (simp add: distill_epoch_ok)
next
  case False
  then have "args_apex a" "\<not> amp_available (ls_sys ls)" "trn \<noteq> []" by auto
  with assms show ?thesis
    by (cases trn) (simp_all add: distill_epoch_raises)
qed

lemma new_events_append: "events s' = events s @ xs \<Longrightarrow> new_events s s' = xs"
  by (simp add: new_events_def)

lemma val_accs_Nil: "val_accs [] = []"
  by (simp add: val_accs_def)

lemma val_accs_Cons:
  "val_accs (x # xs) = (case x of EvPrintAcc top1 top5 \<Rightarrow> [top1] | _ \<Rightarrow> []) @ val_accs xs"
  by (simp add: val_accs_def)

lemma saves_Nil: "saves [] = []"
  by (simp add: saves_def)

lemma saves_Cons:
  "saves (x # xs) = (case x of EvSaveOnMaster obj p \<Rightarrow> [p] | _ \<Rightarrow> []) @ saves xs"
  by (simp add: saves_def)

lemma log_intervals_Nil: "log_intervals [] = []"
  by (simp add: log_intervals_def)

lemma log_intervals_Cons:
  "log_intervals (x # xs) = (case x of EvLogEvery h i \<Rightarrow> [i] | _ \<Rightarrow> []) @ log_intervals xs"
  by (simp add: log_intervals_def)

lemmas observer_simps =
  val_accs_Nil val_accs_Cons saves_Nil saves_Cons log_intervals_Nil log_intervals_Cons

lemma val_accs_append: "val_accs (xs @ ys) = val_accs xs @ val_accs ys"
  by (simp add: val_accs_def)

lemma saves_append: "saves (xs @ ys) = saves xs @ saves ys"
  by (simp add: saves_def)

lemma log_intervals_append: "log_intervals (xs @ ys) = log_intervals xs @ log_intervals ys"
  by (simp add: log_intervals_def)

lemma val_accs_train_events: "val_accs (train_events e i ua bs) = []"
  by (induction bs) (simp_all add: val_accs_def train_events_def cycle_events_def)

lemma saves_train_events: "saves (train_events e i ua bs) = []"
  by (induction bs) (simp_all add: saves_def train_events_def cycle_events_def)

lemma log_intervals_train_events: "log_intervals (train_events e i ua bs) = [i]"
  by (induction bs) (simp_all add: log_intervals_def train_events_def cycle_events_def)

lemma val_accs_eval_events: "val_accs (eval_events sp i bs n t1 t5) = [t1]"
  by (induction bs) (simp_all add: val_accs_def eval_events_def)

lemma top5_accs_eval_events: "top5_accs (eval_events sp i bs n t1 t5) = [t5]"
  by (induction bs) (simp_all add: top5_accs_def eval_events_def)

lemma saves_eval_events: "saves (eval_events sp i bs n t1 t5) = []"
  by (induction bs) (simp_all add: saves_def eval_events_def)

lemma log_intervals_eval_events: "log_intervals (eval_events sp i bs n t1 t5) = [i]"
  by (induction bs) (simp_all add: log_intervals_def eval_events_def)

lemma val_accs_epoch_events: "val_accs (epoch_events d trn vld i ua n p e r) = [fst r]"
  by (cases "snd (snd r)")
     (simp_all add: epoch_events_def val_accs_append val_accs_train_events val_accs_eval_events
        observer_simps save_events_def)

lemma saves_epoch_events:
  "saves (epoch_events d trn vld i ua n p e r) = (case snd (snd r) of None \<Rightarrow> [] | Some obj \<Rightarrow> [p])"
  by (cases "snd (snd r)")
     (simp_all add: epoch_events_def saves_append saves_train_events saves_eval_events
        observer_simps save_events_def)

lemma log_intervals_epoch_events: "log_intervals (epoch_events d trn vld i ua n p e r) = [i, i]"
  by (cases "snd (snd r)")
     (simp_all add: epoch_events_def log_intervals_append log_intervals_train_events
        log_intervals_eval_events observer_simps save_events_def)

lemma epoch_new_events:
  "new_events (ls_sys ls) (ls_sys (epoch_effect fw trn vld prs d cfg a i e ls)) =
     epoch_events d trn vld i (args_apex a) (torch_num_threads (ls_sys ls)) (mimic_ckpt cfg) e
       (epoch_outcome fw trn vld prs cfg a ls)"
  by (rule new_events_append) (simp add: epoch_effect_events)

lemma epoch_val_accs:
  "val_accs (new_events (ls_sys ls) (ls_sys (epoch_effect fw trn vld prs d cfg a i e ls)))
     = [epoch_accuracy 1 fw trn vld prs a ls]"
  by (simp add: epoch_new_events val_accs_epoch_events epoch_outcome_def)

lemma epoch_saves:
  "saves (new_events (ls_sys ls) (ls_sys (epoch_effect fw trn vld prs d cfg a i e ls)))
     = (if epoch_updates fw trn vld prs a ls then [mimic_ckpt cfg] else [])"
  by (simp add: epoch_new_events saves_epoch_events epoch_outcome_def)

lemma epoch_accuracy_nonneg: "0 \<le> epoch_accuracy k fw trn vld prs a ls"
  by (simp add: epoch_accuracy_def weighted_average_nonneg)

lemma map_of_snapshot_best: "map_of (snapshot m opt sch b cfg a) ''best_value'' = Some (PFloat b)"
  by (simp add: snapshot_def)

lemma stored_best_epoch_snapshot:
  "map_of (epoch_snapshot fw trn vld prs cfg a ls) ''best_value''
     = Some (PFloat (epoch_accuracy 1 fw trn vld prs a ls))"
  by (simp add: epoch_snapshot_def map_of_snapshot_best)

section \<open>The loop over the epochs\<close>

lemma run_epochs_Nil: "run_epochs fw trn vld prs d cfg a i [] ls = ls"
  by (simp add: run_epochs_def)

lemma run_epochs_Cons:
  "run_epochs fw trn vld prs d cfg a i (e # es) ls =
     run_epochs fw trn vld prs d cfg a i es (epoch_effect fw trn vld prs d cfg a i e ls)"
  by (simp add: run_epochs_def)

lemma run_epochs_snoc:
  "run_epochs fw trn vld prs d cfg a i (es @ [e]) ls =
     epoch_effect fw trn vld prs d cfg a i e (run_epochs fw trn vld prs d cfg a i es ls)"
  by (simp add: run_epochs_def)

lemma run_epochs_frame:
  "torch_num_threads (ls_sys (run_epochs fw trn vld prs d cfg a i es ls)) = torch_num_threads (ls_sys ls)
   \<and> grad_enabled (ls_sys (run_epochs fw trn vld prs d cfg a i es ls)) = grad_enabled (ls_sys ls)
   \<and> main_process (ls_sys (run_epochs fw trn vld prs d cfg a i es ls)) = main_process (ls_sys ls)
   \<and> amp_available (ls_sys (run_epochs fw trn vld prs d cfg a i es ls)) = amp_available (ls_sys ls)
   \<and> dist_initialized (ls_sys (run_epochs fw trn vld prs d cfg a i es ls)) = dist_initialized (ls_sys ls)"
  by (induction es arbitrary: ls) (simp_all add: run_epochs_Nil run_epochs_Cons epoch_effect_frame)

lemma run_epochs_events:
  "events (ls_sys (run_epochs fw trn vld prs d cfg a i es ls)) =
     events (ls_sys ls) @ loop_events fw trn vld prs d cfg a i es ls"
  by (induction es arbitrary: ls) (simp_all add: run_epochs_Nil run_epochs_Cons epoch_effect_events)

text \<open>The loop of the program against the epochs of the spec: a loop that returns has run
  them all, and a loop returns when apex is there whenever it is asked for.\<close>

lemma distill_loop_Inr:
  assumes "distill_loop fw trn vld prs d cfg a i es ls = Inr ls'"
  shows "ls' = run_epochs fw trn vld prs d cfg a i es ls"
  using assms
proof (induction es arbitrary: ls)
  case Nil
  then show ?case by (simp add: distill_loop_def run_epochs_Nil)
next
  case (Cons e es)
  from Cons.prems obtain ls1 where
    step: "distill_epoch fw trn vld prs d cfg a i e ls = Inr ls1" and
    rest: "distill_loop fw trn vld prs d cfg a i es ls1 = Inr ls'"
    by (auto simp: distill_loop_def split: sum.splits)
  from step have "ls1 = epoch_effect fw trn vld prs d cfg a i e ls"
    by (rule distill_epoch_Inr)
  with Cons.IH [OF rest] show ?case by (simp add: run_epochs_Cons)
qed

lemma distill_loop_ok:
  assumes "args_apex a \<longrightarrow> amp_available (ls_sys ls)"
  shows "distill_loop fw trn vld prs d cfg a i es ls = Inr (run_epochs fw trn vld prs d cfg a i es ls)"
  using assms
proof (induction es arbitrary: ls)
  case Nil
  show ?case by (simp add: distill_loop_def run_epochs_Nil)
next
  case (Cons e es)
  have step: "distill_epoch fw trn vld prs d cfg a i e ls = Inr (epoch_effect fw trn vld prs d cfg a i e ls)"
    using Cons.prems by (simp add: distill_epoch_ok)
  have amp: "args_apex a \<longrightarrow> amp_available (ls_sys (epoch_effect fw trn vld prs d cfg a i e ls))"
    using Cons.prems by (simp add: epoch_effect_frame)
  from Cons.IH [OF amp] have
    "distill_loop fw trn vld prs d cfg a i es (epoch_effect fw trn vld prs d cfg a i e ls)
       = Inr (run_epochs fw trn vld prs d cfg a i es (epoch_effect fw trn vld prs d cfg a i e ls))" .
  then show ?case
    using step by (simp add: distill_loop_def run_epochs_Cons)
qed

lemma val_accs_loop_nonneg:
  "v \<in> set (val_accs (loop_events fw trn vld prs d cfg a i es ls)) \<Longrightarrow> 0 \<le> v"
  by (induction es arbitrary: ls)
     (auto simp: val_accs_append val_accs_epoch_events epoch_accuracy_nonneg val_accs_Nil
        epoch_outcome_def)

lemma length_val_accs_loop:
  "length (val_accs (loop_events fw trn vld prs d cfg a i es ls)) = length es"
  by (induction es arbitrary: ls)
     (simp_all add: val_accs_append val_accs_epoch_events val_accs_Nil)

lemma log_intervals_loop:
  "log_intervals (loop_events fw trn vld prs d cfg a i es ls) = replicate (2 * length es) i"
  by (induction es arbitrary: ls)
     (simp_all add: log_intervals_append log_intervals_epoch_events log_intervals_Nil)

text \<open>On the main process the running best is the maximum of its initial value and the
  accuracies reported since.\<close>

lemma run_epochs_best:
  assumes "main_process (ls_sys ls)"
  shows "ls_best (run_epochs fw trn vld prs d cfg a i es ls) =
           Max (insert (ls_best ls) (set (val_accs (loop_events fw trn vld prs d cfg a i es ls))))"
  using assms
proof (induction es arbitrary: ls)
  case Nil
  show ?case by (simp add: run_epochs_Nil val_accs_Nil)
next
  case (Cons e es)
  let ?ls1 = "epoch_effect fw trn vld prs d cfg a i e ls"
  let ?v = "epoch_accuracy 1 fw trn vld prs a ls"
  let ?S = "set (val_accs (loop_events fw trn vld prs d cfg a i es ?ls1))"
  have main1: "main_process (ls_sys ?ls1)"
    using Cons.prems by (simp add: epoch_effect_frame)
  have best1: "ls_best ?ls1 = max (ls_best ls) ?v"
    using Cons.prems by (simp add: epoch_effect_best epoch_updates_def max_def)
  have "ls_best (run_epochs fw trn vld prs d cfg a i (e # es) ls) = Max (insert (max (ls_best ls) ?v) ?S)"
    using Cons.IH [OF main1] by (simp add: run_epochs_Cons best1)
  also have "\<dots> = Max (insert (ls_best ls) (insert ?v ?S))"
    by (cases "?S = {}") (simp_all add: max.assoc)
  finally show ?case
    by (simp add: val_accs_append val_accs_epoch_events epoch_outcome_def)
qed

text \<open>Once the running best has risen above its initial value, the checkpoint file
  stores it.\<close>

lemma run_epochs_stored:
  assumes "main_process (ls_sys ls)"
    and "b0 \<le> ls_best ls"
    and "b0 < ls_best ls \<longrightarrow> stored_best (ls_sys ls) (mimic_ckpt cfg) = Some (PFloat (ls_best ls))"
  shows "b0 \<le> ls_best (run_epochs fw trn vld prs d cfg a i es ls) \<and>
         (b0 < ls_best (run_epochs fw trn vld prs d cfg a i es ls) \<longrightarrow>
            stored_best (ls_sys (run_epochs fw trn vld prs d cfg a i es ls)) (mimic_ckpt cfg)
              = Some (PFloat (ls_best (run_epochs fw trn vld prs d cfg a i es ls))))"
  using assms
proof (induction es arbitrary: ls)
  case Nil
  then show ?case by (simp add: run_epochs_Nil)
next
  case (Cons e es)
  let ?ls1 = "epoch_effect fw trn vld prs d cfg a i e ls"
  have main1: "main_process (ls_sys ?ls1)"
    using Cons.prems(1) by (simp add: epoch_effect_frame)
  have le1: "b0 \<le> ls_best ?ls1"
    using Cons.prems(2) by (simp add: epoch_effect_best epoch_updates_def)
  have st1: "b0 < ls_best ?ls1 \<longrightarrow>
               stored_best (ls_sys ?ls1) (mimic_ckpt cfg) = Some (PFloat (ls_best ?ls1))"
    using Cons.prems(3)
    by (simp add: epoch_effect_best epoch_effect_files stored_best_def stored_best_epoch_snapshot)
  show ?case
    using Cons.IH [OF main1 le1 st1] by (simp add: run_epochs_Cons)
qed

lemma run_epochs_not_main:
  assumes "\<not> main_process (ls_sys ls)"
  shows "ls_best (run_epochs fw trn vld prs d cfg a i es ls) = ls_best ls
         \<and> files (ls_sys (run_epochs fw trn vld prs d cfg a i es ls)) = files (ls_sys ls)"
  using assms
  by (induction es arbitrary: ls)
     (simp_all add: run_epochs_Nil run_epochs_Cons epoch_effect_best epoch_effect_files
        epoch_effect_frame epoch_updates_def)

lemma Max_insert_nonneg:
  assumes "xs \<noteq> []" and "\<forall>x\<in>set xs. (0::real) \<le> x"
  shows "Max (insert 0 (set xs)) = Max (set xs)"
proof -
  have "0 \<le> Max (set xs)"
    using assms by (cases xs) (auto simp: Max_ge_iff)
  then show ?thesis using assms by (simp add: max_def)
qed

lemma loop_events_shape:
  "\<exists>outcomes. length outcomes = length es \<and>
     loop_events fw trn vld prs d cfg a i es ls =
       concat (map (\<lambda>(e, r). epoch_events d trn vld i (args_apex a) (torch_num_threads (ls_sys ls))
                                (mimic_ckpt cfg) e r) (zip es outcomes))"
proof (induction es arbitrary: ls)
  case Nil
  show ?case by simp
next
  case (Cons e es)
  let ?ls1 = "epoch_effect fw trn vld prs d cfg a i e ls"
  from Cons.IH [of ?ls1] obtain rs where
    len: "length rs = length es" and
    ev: "loop_events fw trn vld prs d cfg a i es ?ls1 =
           concat (map (\<lambda>(e, r). epoch_events d trn vld i (args_apex a) (torch_num_threads (ls_sys ls))
                                    (mimic_ckpt cfg) e r) (zip es rs))"
    by (auto simp: epoch_effect_frame)
  let ?r = "epoch_outcome fw trn vld prs cfg a ls"
  have "length (?r # rs) = length (e # es)" using len by simp
  moreover have "loop_events fw trn vld prs d cfg a i (e # es) ls =
      concat (map (\<lambda>(e, r). epoch_events d trn vld i (args_apex a) (torch_num_threads (ls_sys ls))
                                (mimic_ckpt cfg) e r) (zip (e # es) (?r # rs)))"
    by (simp add: ev)
  ultimately show ?case by blast
qed

section \<open>The whole of \<^verbatim>\<open>distill\<close>\<close>

lemma distill_init_unfold:
  "distill_init fw teacher_model student_model cfg s = Inr ls0 \<Longrightarrow>
     ls_student ls0 = student_model \<and> ls_teacher ls0 = teacher_model \<and> ls_best ls0 = 0 \<and> ls_sys ls0 = s"
  by (auto simp: distill_init_def Let_def split: if_splits sum.splits prod.splits list.splits)

lemma distill_result:
  assumes "distill_init fw teacher_model student_model cfg s = Inr ls0"
    and "args_apex a \<longrightarrow> amp_available s"
  shows "distill fw teacher_model student_model trn vld prs d start_epoch cfg a s =
           (if dist_initialized s
            then Inr ((run_epochs fw trn vld prs d cfg a (distill_interval (train_interval cfg) trn)
                         [start_epoch..train_epoch cfg - 1] ls0)
                       \<lparr>ls_sys := emit EvBarrier
                          (ls_sys (run_epochs fw trn vld prs d cfg a
                             (distill_interval (train_interval cfg) trn)
                             [start_epoch..train_epoch cfg - 1] ls0))\<rparr>)
            else Inl (RuntimeError,
                      (run_epochs fw trn vld prs d cfg a (distill_interval (train_interval cfg) trn)
                         [start_epoch..train_epoch cfg - 1] ls0)
                       \<lparr>ls_sys := emit EvBarrier
                          (ls_sys (run_epochs fw trn vld prs d cfg a
                             (distill_interval (train_interval cfg) trn)
                             [start_epoch..train_epoch cfg - 1] ls0))\<rparr>))"
proof -
  from assms(1) have s0: "ls_sys ls0 = s" by (simp add: distill_init_unfold)
  have loop: "distill_loop fw trn vld prs d cfg a (distill_interval (train_interval cfg) trn)
                [start_epoch..train_epoch cfg - 1] ls0
              = Inr (run_epochs fw trn vld prs d cfg a (distill_interval (train_interval cfg) trn)
                       [start_epoch..train_epoch cfg - 1] ls0)"
    by (rule distill_loop_ok) (simp add: s0 assms(2))
  show ?thesis
    by (simp add: distill_def Let_def assms(1) loop barrier_def emit_def run_epochs_frame s0)
qed

lemma distill_Inr:
  assumes "distill fw teacher_model student_model trn vld prs d start_epoch cfg a s = Inr ls"
  shows "\<exists>ls0. distill_init fw teacher_model student_model cfg s = Inr ls0
           \<and> ls = (run_epochs fw trn vld prs d cfg a (distill_interval (train_interval cfg) trn)
                     [start_epoch..train_epoch cfg - 1] ls0)
                   \<lparr>ls_sys := emit EvBarrier
                      (ls_sys (run_epochs fw trn vld prs d cfg a
                         (distill_interval (train_interval cfg) trn)
                         [start_epoch..train_epoch cfg - 1] ls0))\<rparr>"
proof -
  from assms obtain ls0 ls1 where
    init: "distill_init fw teacher_model student_model cfg s = Inr ls0" and
    loop: "distill_loop fw trn vld prs d cfg a (distill_interval (train_interval cfg) trn)
             [start_epoch..train_epoch cfg - 1] ls0 = Inr ls1" and
    fin: "ls = ls1\<lparr>ls_sys := emit EvBarrier (ls_sys ls1)\<rparr>"
    by (auto simp: distill_def Let_def barrier_def split: sum.splits if_splits)
  from loop have "ls1 = run_epochs fw trn vld prs d cfg a (distill_interval (train_interval cfg) trn)
                          [start_epoch..train_epoch cfg - 1] ls0"
    by (rule distill_loop_Inr)
  with init fin show ?thesis by blast
qed

lemma distill_events:
  assumes "distill_init fw teacher_model student_model cfg s = Inr ls0"
    and "distill fw teacher_model student_model trn vld prs d start_epoch cfg a s = Inr ls"
  shows "new_events s (ls_sys ls) =
           loop_events fw trn vld prs d cfg a (distill_interval (train_interval cfg) trn)
             [start_epoch..train_epoch cfg - 1] ls0 @ [EvBarrier]"
proof (rule new_events_append)
  from assms(1) have s0: "ls_sys ls0 = s" by (simp add: distill_init_unfold)
  from distill_Inr [OF assms(2)] assms(1)
  have "ls = (run_epochs fw trn vld prs d cfg a (distill_interval (train_interval cfg) trn)
                     [start_epoch..train_epoch cfg - 1] ls0)
                   \<lparr>ls_sys := emit EvBarrier
                      (ls_sys (run_epochs fw trn vld prs d cfg a
                         (distill_interval (train_interval cfg) trn)
                         [start_epoch..train_epoch cfg - 1] ls0))\<rparr>"
    by auto
  then show "events (ls_sys ls) = events s @
      loop_events fw trn vld prs d cfg a (distill_interval (train_interval cfg) trn)
        [start_epoch..train_epoch cfg - 1] ls0 @ [EvBarrier]"
    by (simp add: emit_def run_epochs_events s0)
qed

lemma distill_interval_ge1: "1 \<le> distill_interval configured loader"
  by (simp add: distill_interval_def Let_def) arith

lemma trained_epochs_Nil: "trained_epochs [] = []"
  by (simp add: trained_epochs_def)

lemma trained_epochs_Cons:
  "trained_epochs (x # xs) =
     (case x of EvLogEvery (EpochHeader epoch) i \<Rightarrow> [epoch] | _ \<Rightarrow> []) @ trained_epochs xs"
  by (simp add: trained_epochs_def)

lemma trained_epochs_append: "trained_epochs (xs @ ys) = trained_epochs xs @ trained_epochs ys"
  by (simp add: trained_epochs_def)

lemma trained_epochs_train_events: "trained_epochs (train_events e i ua bs) = [e]"
  by (induction bs) (simp_all add: trained_epochs_def train_events_def cycle_events_def)

lemma trained_epochs_eval_events: "trained_epochs (eval_events sp i bs n t1 t5) = []"
  by (induction bs) (simp_all add: trained_epochs_def eval_events_def)

lemma trained_epochs_epoch_events: "trained_epochs (epoch_events d trn vld i ua n p e r) = [e]"
  by (cases "snd (snd r)")
     (simp_all add: epoch_events_def trained_epochs_append trained_epochs_train_events
        trained_epochs_eval_events save_events_def trained_epochs_Nil trained_epochs_Cons)

lemma trained_epochs_loop:
  "trained_epochs (loop_events fw trn vld prs d cfg a i es ls) = es"
  by (induction es arbitrary: ls)
     (simp_all add: trained_epochs_append trained_epochs_epoch_events trained_epochs_Nil)

lemma distill_init_Inl:
  "distill_init fw teacher_model student_model cfg s = Inl (err, ls) \<Longrightarrow> ls_sys ls = s"
  by (auto simp: distill_init_def Let_def split: if_splits sum.splits prod.splits list.splits)

lemma distill_epoch_Inl:
  assumes "distill_epoch fw trn vld prs d cfg a i e ls = Inl (err, ls')"
  shows "\<exists>xs. events (ls_sys ls') = events (ls_sys ls) @ xs \<and> set (log_intervals xs) \<subseteq> {i}"
proof (cases "(args_apex a \<longrightarrow> amp_available (ls_sys ls)) \<or> trn = []")
  case True
  with assms show ?thesis by (simp add: distill_epoch_ok)
next
  case False
  then obtain b bs where trn: "trn = b # bs" and ap: "args_apex a" "\<not> amp_available (ls_sys ls)"
    by (cases trn) auto
  from assms have "events (ls_sys ls') = events (ls_sys ls) @
      ((if d then [EvSetEpoch e] else [])
       @ [EvTeacherEval, EvStudentTrain, EvLogEvery (EpochHeader e) i, EvBoxForward b, EvZeroGrad])"
    unfolding distill_epoch_raises [OF ap] trn by (auto simp: emits_def)
  moreover have "set (log_intervals ((if d then [EvSetEpoch e] else [])
       @ [EvTeacherEval, EvStudentTrain, EvLogEvery (EpochHeader e) i, EvBoxForward b, EvZeroGrad]))
      \<subseteq> {i}"
    by (simp add: log_intervals_append log_intervals_Cons log_intervals_Nil)
  ultimately show ?thesis by blast
qed

lemma distill_loop_Inl:
  assumes "distill_loop fw trn vld prs d cfg a i es ls = Inl (err, ls')"
  shows "\<exists>xs. events (ls_sys ls') = events (ls_sys ls) @ xs \<and> set (log_intervals xs) \<subseteq> {i}"
  using assms
proof (induction es arbitrary: ls)
  case Nil
  then show ?case by (simp add: distill_loop_def)
next
  case (Cons e es)
  show ?case
  proof (cases "distill_epoch fw trn vld prs d cfg a i e ls")
    case (Inl raised)
    with Cons.prems have "distill_epoch fw trn vld prs d cfg a i e ls = Inl (err, ls')"
      by (simp add: distill_loop_def)
    then show ?thesis by (rule distill_epoch_Inl)
  next
    case (Inr ls1)
    then have ls1: "ls1 = epoch_effect fw trn vld prs d cfg a i e ls"
      by (rule distill_epoch_Inr)
    from Cons.prems Inr have "distill_loop fw trn vld prs d cfg a i es ls1 = Inl (err, ls')"
      by (simp add: distill_loop_def)
    from Cons.IH [OF this] obtain xs where
      xs: "events (ls_sys ls') = events (ls_sys ls1) @ xs" "set (log_intervals xs) \<subseteq> {i}"
      by blast
    have "events (ls_sys ls') = events (ls_sys ls) @
            (epoch_events d trn vld i (args_apex a) (torch_num_threads (ls_sys ls)) (mimic_ckpt cfg) e
               (epoch_outcome fw trn vld prs cfg a ls) @ xs)"
      by (simp add: xs(1) ls1 epoch_effect_events)
    moreover have "set (log_intervals
            (epoch_events d trn vld i (args_apex a) (torch_num_threads (ls_sys ls)) (mimic_ckpt cfg) e
               (epoch_outcome fw trn vld prs cfg a ls) @ xs)) \<subseteq> {i}"
      using xs(2) by (simp add: log_intervals_append log_intervals_epoch_events)
    ultimately show ?thesis by blast
  qed
qed

text \<open>However \<^verbatim>\<open>distill\<close> ends, every interval it has handed to \<^verbatim>\<open>log_every\<close> is the one
  computed before the loop.\<close>

lemma distill_Inl:
  assumes "distill fw teacher_model student_model trn vld prs d start_epoch cfg a s = Inl (err, ls)"
  shows "set (log_intervals (new_events s (ls_sys ls)))
           \<subseteq> {distill_interval (train_interval cfg) trn}"
proof (cases "distill_init fw teacher_model student_model cfg s")
  case (Inl raised)
  with assms have "distill_init fw teacher_model student_model cfg s = Inl (err, ls)"
    by (simp add: distill_def)
  then have "ls_sys ls = s" by (rule distill_init_Inl)
  then show ?thesis by (simp add: new_events_def log_intervals_Nil)
next
  case (Inr ls0)
  then have s0: "ls_sys ls0 = s" by (simp add: distill_init_unfold)
  let ?i = "distill_interval (train_interval cfg) trn"
  let ?es = "[start_epoch..train_epoch cfg - 1]"
  show ?thesis
  proof (cases "distill_loop fw trn vld prs d cfg a ?i ?es ls0")
    case (Inl raised)
    with assms Inr have "distill_loop fw trn vld prs d cfg a ?i ?es ls0 = Inl (err, ls)"
      by (simp add: distill_def)
    from distill_loop_Inl [OF this] obtain xs where
      xs: "events (ls_sys ls) = events s @ xs" "set (log_intervals xs) \<subseteq> {?i}"
      by (auto simp: s0)
    from xs(1) have "new_events s (ls_sys ls) = xs" by (rule new_events_append)
    with xs(2) show ?thesis by simp
  next
    case loop: (Inr ls1)
    then have ls1: "ls1 = run_epochs fw trn vld prs d cfg a ?i ?es ls0"
      by (rule distill_loop_Inr)
    from assms Inr loop have "ls = ls1\<lparr>ls_sys := emit EvBarrier (ls_sys ls1)\<rparr>"
      by (auto simp: distill_def Let_def barrier_def split: if_splits)
    then have "events (ls_sys ls) =
        events s @ (loop_events fw trn vld prs d cfg a ?i ?es ls0 @ [EvBarrier])"
      by (simp add: emit_def ls1 run_epochs_events s0)
    then have "new_events s (ls_sys ls) = loop_events fw trn vld prs d cfg a ?i ?es ls0 @ [EvBarrier]"
      by (rule new_events_append)
    then show ?thesis
      by (auto simp: log_intervals_append log_intervals_loop log_intervals_Cons log_intervals_Nil)
  qed
qed

lemma distill_Inr_intervals:
  assumes "distill fw teacher_model student_model trn vld prs d start_epoch cfg a s = Inr ls"
  shows "log_intervals (new_events s (ls_sys ls)) =
           replicate (2 * length [start_epoch..train_epoch cfg - 1])
             (distill_interval (train_interval cfg) trn)"
proof -
  from assms obtain ls0 where init: "distill_init fw teacher_model student_model cfg s = Inr ls0"
    by (cases "distill_init fw teacher_model student_model cfg s") (simp_all add: distill_def)
  show ?thesis
    by (simp add: distill_events [OF init assms] log_intervals_append log_intervals_loop
        log_intervals_Cons log_intervals_Nil)
qed

section \<open>The small run, evaluated\<close>

lemmas demo_defs =
  demo_framework_def demo_config_def demo_args_def demo_student_def demo_teacher_def
  demo_train_def demo_val_def demo_peers_def demo_ckpt_def demo_weights_def demo_sys_def
  demo_init_def
  demo_resumed_def

lemma demo_init_fresh:
  "distill_init demo_framework demo_teacher demo_student demo_config (demo_sys main [])
     = Inr (demo_init main)"
  by (simp add: distill_init_def Let_def check_if_exists_def demo_defs)

lemma demo_init_sys: "ls_sys (demo_init main) = demo_sys main []"
  by (simp add: demo_init_def)

lemma demo_accuracy:
  "epoch_accuracy 1 demo_framework demo_train demo_val [] demo_args (demo_init main) = 1 / 2"
  by (simp add: epoch_accuracy_def trained_def weighted_average_def batch_accuracy_def hits_def
      scored_def in_topk_def demo_defs)

lemma demo_epoch:
  "distill_epoch demo_framework demo_train demo_val [] d demo_config demo_args 1 0 (demo_init main)
     = Inr (epoch_effect demo_framework demo_train demo_val [] d demo_config demo_args 1 0
              (demo_init main))"
  by (rule distill_epoch_ok) (simp add: demo_args_def)

lemma demo_val_accs:
  "val_accs (new_events (demo_sys main [])
      (ls_sys (epoch_effect demo_framework demo_train demo_val [] d demo_config demo_args 1 0
                 (demo_init main)))) = [1 / 2]"
  using epoch_val_accs [of "demo_init main" demo_framework demo_train demo_val "[]" d
      demo_config demo_args 1 0]
  unfolding demo_init_sys demo_accuracy .

lemma demo_ckpt_entries:
  "map_of demo_ckpt ''model'' = Some (PStateDict [(''fc.weight'', [3])])"
  "map_of demo_ckpt ''optimizer'' = Some (PStateDict [(''lr'', [0.01])])"
  "map_of demo_ckpt ''lr_scheduler'' = Some (PStateDict [(''last_epoch'', [7])])"
  "map_of demo_ckpt ''config'' = Some (PConfig demo_config)"
  "map_of demo_ckpt ''args'' = Some (PArgs demo_args)"
  "map_of demo_ckpt ''best_value'' = Some (PFloat 0.9)"
  by (simp_all add: demo_ckpt_def)

lemma optimizer_steps_cycles:
  "optimizer_steps (concat (map (cycle_events ua) bs)) = length bs"
  by (induction bs) (simp_all add: optimizer_steps_def cycle_events_def)

lemma gradient_events_forward: "gradient_events (map (\<lambda>b. EvModelForward b False) bs) = []"
  by (induction bs) (simp_all add: gradient_events_def)

lemma load_into_lookup:
  assumes "\<not> size_mismatch own sd" and "map_of own k = Some v"
  shows "map_of (load_into own sd) k = Some (case map_of sd k of None \<Rightarrow> v | Some w \<Rightarrow> w)"
  using assms
proof (induction own)
  case Nil
  then show ?case by simp
next
  case (Cons kv own)
  obtain k' v' where kv: "kv = (k', v')" by (cases kv)
  show ?case
  proof (cases "k' = k")
    case True
    with Cons.prems kv show ?thesis
      by (auto simp: load_into_def size_mismatch_def split: option.splits)
  next
    case False
    with Cons.prems kv have "\<not> size_mismatch own sd" "map_of own k = Some v"
      by (auto simp: size_mismatch_def)
    from Cons.IH [OF this] False kv show ?thesis
      by (simp add: load_into_def)
  qed
qed

lemma demo_loop_Nil:
  "distill_loop demo_framework demo_train demo_val [] False demo_config demo_args 1 [] ls = Inr ls"
  by (simp add: distill_loop_def)

lemma demo_interval: "distill_interval (train_interval demo_config) demo_train = 1"
  by (simp add: distill_interval_def demo_config_def demo_train_def)

lemma demo_epochs: "[0..train_epoch demo_config - 1] = [0]"
  by (simp add: demo_config_def upto.simps)

lemma demo_run:
  "run_epochs demo_framework demo_train demo_val [] d demo_config demo_args 1 [0] ls
     = epoch_effect demo_framework demo_train demo_val [] d demo_config demo_args 1 0 ls"
  by (simp add: run_epochs_def)

lemma demo_best:
  "ls_best (epoch_effect demo_framework demo_train demo_val [] d demo_config demo_args 1 0
              (demo_init main)) = (if main then 1 / 2 else 0)"
  unfolding epoch_effect_best epoch_updates_def demo_accuracy
  by (simp add: demo_init_def demo_sys_def)

lemma demo_student_trained:
  "ls_student (epoch_effect demo_framework demo_train demo_val [] d demo_config demo_args 1 0
                 (demo_init main))
     = Plain \<lparr>params = [(''fc.weight'', [2])], training = False\<rparr>"
  by (simp add: epoch_effect_def trained_def set_mode_def demo_defs)

lemma demo_distill:
  "distill demo_framework demo_teacher demo_student demo_train demo_val [] d 0
     demo_config demo_args (demo_sys True [])
     = Inr ((epoch_effect demo_framework demo_train demo_val [] d demo_config demo_args 1 0
               (demo_init True))
             \<lparr>ls_sys := emit EvBarrier
                (ls_sys (epoch_effect demo_framework demo_train demo_val [] d demo_config
                           demo_args 1 0 (demo_init True)))\<rparr>)"
proof -
  have ap: "args_apex demo_args \<longrightarrow> amp_available (demo_sys True [])"
    by (simp add: demo_args_def)
  have di: "dist_initialized (demo_sys True [])" by (simp add: demo_sys_def)
  show ?thesis
    using distill_result [OF demo_init_fresh [of True] ap,
        where trn = demo_train and vld = demo_val and prs = "[]" and d = d
          and start_epoch = 0]
    by (simp add: demo_interval demo_epochs demo_run di)
qed

section \<open>The checkpoint store\<close>

text \<open>
  Claim C3. \<^verbatim>\<open>save_ckpt\<close> hands \<^verbatim>\<open>save_on_master\<close> exactly the dict with the six entries
  \<^verbatim>\<open>model\<close>, \<^verbatim>\<open>optimizer\<close>, \<^verbatim>\<open>best_value\<close>, \<^verbatim>\<open>lr_scheduler\<close>, \<^verbatim>\<open>config\<close> and \<^verbatim>\<open>args\<close>,
  together with the output path, after creating the parent directories. The model entry is
  the state dict of the module itself, also when the model is wrapped by
  \<^verbatim>\<open>DistributedDataParallel\<close> (no \<^verbatim>\<open>module.\<close> prefix). On the main process the file at the
  output path then holds exactly this dict, and no other file changes.
\<close>

theorem save_ckpt_snapshot:
  "new_events s (save_ckpt model optimizer lr_scheduler best_value cfg a output_file_path s)
     = [EvMakeParentDirs output_file_path,
        EvSaveOnMaster
          [(''model'', PStateDict (params (module_of model))),
           (''optimizer'', PStateDict optimizer),
           (''best_value'', PFloat best_value),
           (''lr_scheduler'', PStateDict lr_scheduler),
           (''config'', PConfig cfg),
           (''args'', PArgs a)]
          output_file_path]
   \<and> (main_process s \<longrightarrow>
        files (save_ckpt model optimizer lr_scheduler best_value cfg a output_file_path s) =
          (files s)(output_file_path \<mapsto>
             [(''model'', PStateDict (params (module_of model))),
              (''optimizer'', PStateDict optimizer),
              (''best_value'', PFloat best_value),
              (''lr_scheduler'', PStateDict lr_scheduler),
              (''config'', PConfig cfg),
              (''args'', PArgs a)]))"
  by (simp add: save_ckpt_unfold snapshot_def emits_fields new_events_def save_events_def)

text \<open>Saving a wrapped module on the main process of the small run.\<close>

theorem save_ckpt_snapshot_witness:
  "main_process (demo_sys True [])
   \<and> files (save_ckpt (DistributedDataParallel demo_teacher) [(''lr'', [0.1])]
              [(''last_epoch'', [0])] 0.5 demo_config demo_args ''out/student.pt''
              (demo_sys True [])) ''out/student.pt''
       = Some [(''model'', PStateDict [(''fc.weight'', [2])]),
               (''optimizer'', PStateDict [(''lr'', [0.1])]),
               (''best_value'', PFloat 0.5),
               (''lr_scheduler'', PStateDict [(''last_epoch'', [0])]),
               (''config'', PConfig demo_config),
               (''args'', PArgs demo_args)]"
proof -
  have m: "main_process (demo_sys True [])" by (simp add: demo_sys_def)
  show ?thesis
    using save_ckpt_snapshot [of "demo_sys True []" "DistributedDataParallel demo_teacher"
        "[(''lr'', [0.1])]" "[(''last_epoch'', [0])]" "0.5" demo_config demo_args
        "''out/student.pt''"] m
    by (simp add: demo_teacher_def)
qed

text \<open>
  Claim C4, amended. When the checkpoint file exists and stores a config, the args and a
  state dict for each of the model, the optimizer and the scheduler that is passed (for the
  model, one that \<^verbatim>\<open>load_state_dict\<close> accepts under the given \<^verbatim>\<open>strict\<close>: no tensor of
  another size, and under \<^verbatim>\<open>strict=True\<close> the keys of the model), \<^verbatim>\<open>load_ckpt\<close> loads the
  stored state into exactly the objects that are not \<^verbatim>\<open>None\<close> and returns the triple of the
  stored best value (0.0 when the file has no \<^verbatim>\<open>best_value\<close> entry), the stored config and
  the stored args. The optimizer and the scheduler take the stored state as it is; every
  entry of the model takes the stored tensor of its key and stays as it was when the state
  dict has no such key, and under \<^verbatim>\<open>strict=True\<close> every entry of the model has the stored
  tensor afterwards.
\<close>

theorem load_ckpt_restores:
  assumes "files s ckpt_file_path = Some ck"
    and "\<forall>m. model = Some m \<longrightarrow>
           map_of ck ''model'' = Some (PStateDict stored_model)
           \<and> \<not> load_raises strict (params m) stored_model"
    and "optimizer = None \<or> map_of ck ''optimizer'' = Some (PStateDict stored_optimizer)"
    and "lr_scheduler = None \<or> map_of ck ''lr_scheduler'' = Some (PStateDict stored_scheduler)"
    and "map_of ck ''config'' = Some stored_config"
    and "map_of ck ''args'' = Some stored_args"
  shows "load_ckpt fw s ckpt_file_path model optimizer lr_scheduler strict =
           Inr ([case map_of ck ''best_value'' of None \<Rightarrow> PFloat 0.0 | Some b \<Rightarrow> b,
                 stored_config, stored_args],
                map_option (\<lambda>m. m\<lparr>params := load_into (params m) stored_model\<rparr>) model,
                map_option (\<lambda>_. stored_optimizer) optimizer,
                map_option (\<lambda>_. stored_scheduler) lr_scheduler)
         \<and> (\<forall>m k v. model = Some m \<longrightarrow> map_of (params m) k = Some v \<longrightarrow>
               map_of (load_into (params m) stored_model) k
                 = Some (case map_of stored_model k of None \<Rightarrow> v | Some w \<Rightarrow> w))
         \<and> (\<forall>m k v. model = Some m \<longrightarrow> strict \<longrightarrow> map_of (params m) k = Some v \<longrightarrow>
               map_of (load_into (params m) stored_model) k = map_of stored_model k)"
proof -
  have ret: "load_ckpt fw s ckpt_file_path model optimizer lr_scheduler strict =
           Inr ([case map_of ck ''best_value'' of None \<Rightarrow> PFloat 0.0 | Some b \<Rightarrow> b,
                 stored_config, stored_args],
                map_option (\<lambda>m. m\<lparr>params := load_into (params m) stored_model\<rparr>) model,
                map_option (\<lambda>_. stored_optimizer) optimizer,
                map_option (\<lambda>_. stored_scheduler) lr_scheduler)"
    using assms
    by (auto simp add: load_ckpt_def check_if_exists_def torch_load_def getitem_def
        get_default_def module_load_state_dict_def optimizer_load_state_dict_def
        scheduler_load_state_dict_def
        split: option.splits)
  have look: "map_of (load_into (params m) stored_model) k
                = Some (case map_of stored_model k of None \<Rightarrow> v | Some w \<Rightarrow> w)"
    if "model = Some m" "map_of (params m) k = Some v" for m k v
    using that assms(2) by (intro load_into_lookup) (auto simp: load_raises_def)
  have strict_look: "map_of (load_into (params m) stored_model) k = map_of stored_model k"
    if "model = Some m" "strict" "map_of (params m) k = Some v" for m k v
  proof -
    from that assms(2) have "missing_keys (params m) stored_model = []"
      by (auto simp: load_raises_def)
    moreover from that(3) have "k \<in> set (map fst (params m))"
      by (auto dest: map_of_SomeD intro: rev_image_eqI)
    ultimately have "map_of stored_model k \<noteq> None"
      by (auto simp: missing_keys_def filter_empty_conv)
    then show ?thesis
      using look [OF that(1) that(3)] by auto
  qed
  from ret look strict_look show ?thesis by blast
qed

text \<open>Loading the earlier checkpoint into a model, under \<^verbatim>\<open>strict=True\<close>, and an optimizer,
  with no scheduler: the model and the optimizer take the stored state.\<close>

theorem load_ckpt_restores_witness:
  "files (demo_sys True [(''student.pt'', demo_ckpt)]) ''student.pt'' = Some demo_ckpt
   \<and> map_of demo_ckpt ''model'' = Some (PStateDict [(''fc.weight'', [3])])
   \<and> \<not> load_raises True (params demo_teacher) [(''fc.weight'', [3])]
   \<and> map_of demo_ckpt ''optimizer'' = Some (PStateDict [(''lr'', [0.01])])
   \<and> map_of demo_ckpt ''config'' = Some (PConfig demo_config)
   \<and> map_of demo_ckpt ''args'' = Some (PArgs demo_args)
   \<and> load_ckpt demo_framework (demo_sys True [(''student.pt'', demo_ckpt)]) ''student.pt''
        (Some demo_teacher) (Some [(''lr'', [0.1])]) None True
       = Inr ([PFloat 0.9, PConfig demo_config, PArgs demo_args],
              Some (demo_teacher\<lparr>params := [(''fc.weight'', [3])]\<rparr>),
              Some [(''lr'', [0.01])], None)"
proof -
  have f: "files (demo_sys True [(''student.pt'', demo_ckpt)]) ''student.pt'' = Some demo_ckpt"
    by (simp add: demo_sys_def)
  note md = demo_ckpt_entries(1) and o = demo_ckpt_entries(2) and c = demo_ckpt_entries(4)
    and a = demo_ckpt_entries(5) and b = demo_ckpt_entries(6)
  have ok: "\<not> load_raises True (params demo_teacher) [(''fc.weight'', [3])]"
    by (simp add: load_raises_def size_mismatch_def missing_keys_def unexpected_keys_def
        demo_teacher_def)
  have m: "\<forall>m. Some demo_teacher = Some m \<longrightarrow>
             map_of demo_ckpt ''model'' = Some (PStateDict [(''fc.weight'', [3])])
             \<and> \<not> load_raises True (params m) [(''fc.weight'', [3])]"
    using md ok by simp
  have li: "load_into (params demo_teacher) [(''fc.weight'', [3])] = [(''fc.weight'', [3])]"
    by (simp add: load_into_def demo_teacher_def)
  have "load_ckpt demo_framework (demo_sys True [(''student.pt'', demo_ckpt)]) ''student.pt''
          (Some demo_teacher) (Some [(''lr'', [0.1])]) None True
        = Inr ([PFloat 0.9, PConfig demo_config, PArgs demo_args],
               Some (demo_teacher\<lparr>params := [(''fc.weight'', [3])]\<rparr>),
               Some [(''lr'', [0.01])], None)"
    using load_ckpt_restores [OF f m disjI2 [OF o] disjI1 [OF refl] c a,
        where fw = demo_framework]
    by (simp add: b li)
  with f md ok o c a show ?thesis by blast
qed

text \<open>Claim C4 as stated fails on a file that exists but holds the weights of a model and
  nothing else: the weights are loaded, then reading \<^verbatim>\<open>ckpt['config']\<close> raises \<^verbatim>\<open>KeyError\<close>
  and no triple is returned. It also fails on the earlier checkpoint and a model with
  another key under \<^verbatim>\<open>strict=True\<close>: \<^verbatim>\<open>load_state_dict\<close> raises \<^verbatim>\<open>RuntimeError\<close>, nothing is
  loaded and no triple is returned.\<close>

theorem load_ckpt_weights_only_counterexample:
  "check_if_exists (demo_sys True [(''weights.pt'', demo_weights)]) ''weights.pt''
   \<and> load_ckpt demo_framework (demo_sys True [(''weights.pt'', demo_weights)]) ''weights.pt''
        (Some demo_teacher) None None True
       = Inl (KeyError ''config'', Some (demo_teacher\<lparr>params := [(''fc.weight'', [3])]\<rparr>),
              None, None)
   \<and> check_if_exists (demo_sys True [(''student.pt'', demo_ckpt)]) ''student.pt''
   \<and> load_ckpt demo_framework (demo_sys True [(''student.pt'', demo_ckpt)]) ''student.pt''
        (Some \<lparr>params = [(''conv.weight'', [2])], training = False\<rparr>) None None True
       = Inl (RuntimeError, Some \<lparr>params = [(''conv.weight'', [2])], training = False\<rparr>,
              None, None)"
  by (simp add: load_ckpt_def check_if_exists_def torch_load_def getitem_def
      module_load_state_dict_def load_raises_def size_mismatch_def missing_keys_def
      unexpected_keys_def load_into_def demo_sys_def demo_weights_def demo_teacher_def
      demo_ckpt_def)

text \<open>
  Claim C9. When the checkpoint file does not exist, \<^verbatim>\<open>load_ckpt\<close> returns the pair
  \<^verbatim>\<open>(None, None)\<close>, a tuple of two components where a successful load returns three, and
  the model, the optimizer and the scheduler are as they were passed.
\<close>

theorem load_ckpt_missing_file:
  assumes "\<not> check_if_exists s ckpt_file_path"
  shows "load_ckpt fw s ckpt_file_path model optimizer lr_scheduler strict
           = Inr ([PNone, PNone], model, optimizer, lr_scheduler)"
  using assms by (simp add: load_ckpt_def)

text \<open>Loading from an empty disk.\<close>

theorem load_ckpt_missing_file_witness:
  "\<not> check_if_exists (demo_sys True []) ''student.pt''
   \<and> load_ckpt demo_framework (demo_sys True []) ''student.pt'' (Some demo_teacher)
        (Some [(''lr'', [0.1])]) (Some [(''last_epoch'', [0])]) True
       = Inr ([PNone, PNone], Some demo_teacher, Some [(''lr'', [0.1])], Some [(''last_epoch'', [0])])"
proof -
  have h: "\<not> check_if_exists (demo_sys True []) ''student.pt''"
    by (simp add: check_if_exists_def demo_sys_def)
  from load_ckpt_missing_file [OF h] h show ?thesis by blast
qed

section \<open>The training pass and the evaluator\<close>

text \<open>
  Claim C5. \<^verbatim>\<open>distill_one_epoch\<close> runs, for every batch of the training loader in order,
  one cycle of forward pass of the distillation box, \<^verbatim>\<open>zero_grad\<close>, backward pass and
  optimizer step, in this order and after the one call of \<^verbatim>\<open>log_every\<close>. It returns, and
  the student's parameters and the optimizer's state are then what these cycles, one per
  batch and in the loader's order, make of the ones passed in; the number of optimizer
  steps of the epoch is the number of batches. The flag \<^verbatim>\<open>use_apex\<close> is set only where
  apex could be imported: \<^verbatim>\<open>main\<close> checks this before anything else (lines 183 to 188).
\<close>

theorem distill_one_epoch_cycles:
  assumes "use_apex \<longrightarrow> amp_available s"
  shows "distill_one_epoch fw student_model train_data_loader optimizer epoch interval use_apex s
           = Inr (map_module
                    (\<lambda>m. m\<lparr>params :=
                            fst (fold (fw_train_cycle fw use_apex) train_data_loader
                                   (params (module_of student_model), optimizer))\<rparr>)
                    student_model,
                  snd (fold (fw_train_cycle fw use_apex) train_data_loader
                         (params (module_of student_model), optimizer)),
                  s\<lparr>events :=
                      events s
                      @ EvLogEvery (EpochHeader epoch) interval
                        # concat (map (\<lambda>b. [EvBoxForward b, EvZeroGrad, EvBackward use_apex,
                                             EvOptimizerStep])
                                    train_data_loader)\<rparr>)
         \<and> optimizer_steps
             (EvLogEvery (EpochHeader epoch) interval
              # concat (map (\<lambda>b. [EvBoxForward b, EvZeroGrad, EvBackward use_apex,
                                   EvOptimizerStep])
                          train_data_loader))
           = length train_data_loader"
proof -
  have ev: "train_events epoch interval use_apex train_data_loader =
      EvLogEvery (EpochHeader epoch) interval
       # concat (map (\<lambda>b. [EvBoxForward b, EvZeroGrad, EvBackward use_apex, EvOptimizerStep])
                   train_data_loader)"
    by (simp add: train_events_def cycle_events_def [abs_def])
  have "optimizer_steps (train_events epoch interval use_apex train_data_loader)
          = length train_data_loader"
    using optimizer_steps_cycles [of use_apex train_data_loader]
    by (simp add: train_events_def optimizer_steps_def)
  moreover have "distill_one_epoch fw student_model train_data_loader optimizer epoch interval
                   use_apex s
      = Inr (map_module
               (\<lambda>m. m\<lparr>params :=
                       fst (fold (fw_train_cycle fw use_apex) train_data_loader
                              (params (module_of student_model), optimizer))\<rparr>)
               student_model,
             snd (fold (fw_train_cycle fw use_apex) train_data_loader
                    (params (module_of student_model), optimizer)),
             s\<lparr>events := events s @ train_events epoch interval use_apex train_data_loader\<rparr>)"
    using assms by (simp add: distill_one_epoch_ok emits_def)
  ultimately show ?thesis by (simp add: ev)
qed

text \<open>The training pass of the small run: one batch, one cycle, and the weight of the
  student has gone from 1 to 2.\<close>

theorem distill_one_epoch_cycles_witness:
  "\<not> False
   \<and> distill_one_epoch demo_framework demo_student demo_train [(''lr'', [0.1])] 0 1 False
       (demo_sys True [])
     = Inr (Plain \<lparr>params = [(''fc.weight'', [2])], training = False\<rparr>, [(''lr'', [0.1])],
            (demo_sys True [])
              \<lparr>events := [EvLogEvery (EpochHeader 0) 1, EvBoxForward [([0.1, 0.9], 1)],
                           EvZeroGrad, EvBackward False, EvOptimizerStep]\<rparr>)"
proof -
  have h: "False \<longrightarrow> amp_available (demo_sys True [])" by simp
  show ?thesis
    using distill_one_epoch_cycles [OF h, where fw = demo_framework and student_model = demo_student
        and train_data_loader = demo_train and optimizer = "[(''lr'', [0.1])]" and epoch = 0
        and interval = 1]
    by (simp add: demo_framework_def demo_student_def demo_train_def demo_sys_def)
qed

text \<open>
  Claim C6. \<^verbatim>\<open>evaluate\<close> returns the top-1 accuracy as the average of the top-1 accuracies
  of the batches weighted by batch size, over the batches of all workers; when no batch is
  empty this is the fraction of all samples whose label is the highest-scored prediction.
  The top-5 accuracy that it reports is likewise the fraction of all samples whose label is
  among the five highest-scored predictions.
\<close>

theorem evaluate_top_accuracy:
  assumes "\<forall>b\<in>set (data_loader @ concat peers). b \<noteq> []"
    and "data_loader \<noteq> []"
  shows "fst (evaluate fw model data_loader peers interval split_name s)
           = weighted_average 1 fw (params (module_of model)) (data_loader @ concat peers)
         \<and> fst (evaluate fw model data_loader peers interval split_name s)
           = sample_fraction 1 fw (params (module_of model)) (data_loader @ concat peers)
         \<and> val_accs (new_events s (snd (snd (evaluate fw model data_loader peers interval
                                              split_name s))))
           = [sample_fraction 1 fw (params (module_of model)) (data_loader @ concat peers)]
         \<and> top5_accs (new_events s (snd (snd (evaluate fw model data_loader peers interval
                                               split_name s))))
           = [sample_fraction 5 fw (params (module_of model)) (data_loader @ concat peers)]"
proof -
  let ?p = "params (module_of model)"
  let ?bs = "data_loader @ concat peers"
  have new: "new_events s (snd (snd (evaluate fw model data_loader peers interval split_name s)))
          = eval_events split_name interval data_loader (torch_num_threads s)
              (weighted_average 1 fw ?p ?bs) (weighted_average 5 fw ?p ?bs)"
    by (rule new_events_append) (simp add: evaluate_unfold emits_fields global_avg_weighted)
  have res: "fst (evaluate fw model data_loader peers interval split_name s)
               = weighted_average 1 fw ?p ?bs"
    by (simp add: evaluate_unfold global_avg_weighted)
  have fr: "weighted_average k fw ?p ?bs = sample_fraction k fw ?p ?bs" for k
    by (rule weighted_average_fraction) (rule assms(1))
  show ?thesis
    unfolding new res by (simp add: fr val_accs_eval_events top5_accs_eval_events)
qed

text \<open>Two workers: this one with the validation batch of the small run, a peer with one
  sample that its model gets right; two of the three samples are hits.\<close>

theorem evaluate_top_accuracy_witness:
  "[] \<notin> set (demo_val @ concat demo_peers)
   \<and> demo_val \<noteq> []
   \<and> fst (evaluate demo_framework demo_student demo_val demo_peers 1 ''Test''
             (demo_sys True [])) = 2 / 3"
proof -
  have h1: "\<forall>b\<in>set (demo_val @ concat demo_peers). b \<noteq> []"
    by (simp add: demo_val_def demo_peers_def)
  have h2: "demo_val \<noteq> []"
    by (simp add: demo_val_def)
  have "sample_fraction 1 demo_framework (params (module_of demo_student))
          (demo_val @ concat demo_peers) = 2 / 3"
    by (simp add: sample_fraction_def hits_def scored_def in_topk_def demo_defs)
  moreover have "[] \<notin> set (demo_val @ concat demo_peers)"
    using h1 by blast
  ultimately show ?thesis
    using evaluate_top_accuracy [OF h1 h2, where fw = demo_framework and model = demo_student
      and interval = 1 and split_name = "''Test''" and s = "demo_sys True []"] h2
    by simp
qed

text \<open>
  Claim C7. \<^verbatim>\<open>evaluate\<close> only infers: the model it returns is the given one put into eval
  mode, with the same parameters; the thread count, the gradient mode and the files are
  afterwards what they were before; and its calls are the switch to one thread, the switch
  to eval mode, one forward pass per batch with the gradient mode off, the synchronisation,
  the report and the switch back to the saved thread count, none of which computes or
  applies a gradient.
\<close>

theorem evaluate_inference_only:
  "fst (snd (evaluate fw model data_loader peers interval split_name s)) = set_mode False model
   \<and> params (module_of (fst (snd (evaluate fw model data_loader peers interval split_name s))))
       = params (module_of model)
   \<and> torch_num_threads (snd (snd (evaluate fw model data_loader peers interval split_name s)))
       = torch_num_threads s
   \<and> grad_enabled (snd (snd (evaluate fw model data_loader peers interval split_name s)))
       = grad_enabled s
   \<and> files (snd (snd (evaluate fw model data_loader peers interval split_name s))) = files s
   \<and> gradient_events (new_events s (snd (snd (evaluate fw model data_loader peers interval
                                                 split_name s)))) = []
   \<and> (\<exists>top5.
        new_events s (snd (snd (evaluate fw model data_loader peers interval split_name s)))
          = [EvSetNumThreads 1, EvModelEval, EvLogEvery (SplitHeader split_name) interval]
            @ map (\<lambda>b. EvModelForward b False) data_loader
            @ [EvSynchronize,
               EvPrintAcc (fst (evaluate fw model data_loader peers interval split_name s)) top5,
               EvSetNumThreads (torch_num_threads s)])"
proof -
  let ?t1 = "global_avg (meter_acc1 (eval_logger fw model data_loader peers))"
  let ?t5 = "global_avg (meter_acc5 (eval_logger fw model data_loader peers))"
  have new: "new_events s (snd (snd (evaluate fw model data_loader peers interval split_name s)))
          = eval_events split_name interval data_loader (torch_num_threads s) ?t1 ?t5"
    by (rule new_events_append) (simp add: evaluate_unfold emits_fields)
  have g: "gradient_events (eval_events split_name interval data_loader (torch_num_threads s) ?t1 ?t5) = []"
    by (simp add: eval_events_def gradient_events_forward)
       (simp add: gradient_events_def)
  have e: "eval_events split_name interval data_loader (torch_num_threads s) ?t1 ?t5
             = [EvSetNumThreads 1, EvModelEval, EvLogEvery (SplitHeader split_name) interval]
               @ map (\<lambda>b. EvModelForward b False) data_loader
               @ [EvSynchronize,
                  EvPrintAcc (fst (evaluate fw model data_loader peers interval split_name s)) ?t5,
                  EvSetNumThreads (torch_num_threads s)]"
    by (simp add: eval_events_def evaluate_unfold)
  have frame: "fst (snd (evaluate fw model data_loader peers interval split_name s)) = set_mode False model"
    "torch_num_threads (snd (snd (evaluate fw model data_loader peers interval split_name s)))
       = torch_num_threads s"
    "grad_enabled (snd (snd (evaluate fw model data_loader peers interval split_name s)))
       = grad_enabled s"
    "files (snd (snd (evaluate fw model data_loader peers interval split_name s))) = files s"
    by (simp_all add: evaluate_unfold emits_fields)
  from new g e frame show ?thesis
    by (simp add: set_mode_params)
qed

section \<open>The epochs of \<^verbatim>\<open>distill\<close>\<close>

text \<open>
  Claim C2. When the set-up of \<^verbatim>\<open>distill\<close> succeeds (there is no checkpoint, or it can be
  loaded) and \<^verbatim>\<open>args.apex\<close> is set only where apex could be imported, the loop of
  \<^verbatim>\<open>distill\<close> runs the epochs from \<^verbatim>\<open>start_epoch\<close> up to but excluding
  \<^verbatim>\<open>train_config['epoch']\<close>, each once and in order, and ends in the state that these
  epochs leave one after the other. An epoch leaves the student with the parameters of one
  training pass over the whole training loader, the accuracy of one evaluation of that
  student on the validation loader, the checkpoint saved or not by the one comparison of
  this accuracy with the running best, and the scheduler stepped once; its calls are made
  in this order. \<^verbatim>\<open>distill\<close> itself ends in this state after the barrier: it returns when
  the process group has been initialised, and the barrier raises otherwise.
\<close>

theorem distill_epochs_in_order:
  assumes "distill_init fw teacher_model student_model cfg s = Inr ls0"
    and "args_apex a \<longrightarrow> amp_available s"
  shows "distill_loop fw train_data_loader val_data_loader val_peers distributed cfg a
           (distill_interval (train_interval cfg) train_data_loader)
           [start_epoch..train_epoch cfg - 1] ls0
         = Inr (run_epochs fw train_data_loader val_data_loader val_peers distributed cfg a
                  (distill_interval (train_interval cfg) train_data_loader)
                  [start_epoch..train_epoch cfg - 1] ls0)
       \<and> distill fw teacher_model student_model train_data_loader val_data_loader val_peers
           distributed start_epoch cfg a s
         = (if dist_initialized s
            then Inr ((run_epochs fw train_data_loader val_data_loader val_peers distributed cfg a
                         (distill_interval (train_interval cfg) train_data_loader)
                         [start_epoch..train_epoch cfg - 1] ls0)
                       \<lparr>ls_sys := emit EvBarrier
                          (ls_sys (run_epochs fw train_data_loader val_data_loader val_peers
                             distributed cfg a
                             (distill_interval (train_interval cfg) train_data_loader)
                             [start_epoch..train_epoch cfg - 1] ls0))\<rparr>)
            else Inl (RuntimeError,
                      (run_epochs fw train_data_loader val_data_loader val_peers distributed cfg a
                         (distill_interval (train_interval cfg) train_data_loader)
                         [start_epoch..train_epoch cfg - 1] ls0)
                       \<lparr>ls_sys := emit EvBarrier
                          (ls_sys (run_epochs fw train_data_loader val_data_loader val_peers
                             distributed cfg a
                             (distill_interval (train_interval cfg) train_data_loader)
                             [start_epoch..train_epoch cfg - 1] ls0))\<rparr>))
       \<and> new_events s
           (ls_sys (run_epochs fw train_data_loader val_data_loader val_peers distributed cfg a
                      (distill_interval (train_interval cfg) train_data_loader)
                      [start_epoch..train_epoch cfg - 1] ls0))
         = loop_events fw train_data_loader val_data_loader val_peers distributed cfg a
             (distill_interval (train_interval cfg) train_data_loader)
             [start_epoch..train_epoch cfg - 1] ls0
       \<and> trained_epochs
           (loop_events fw train_data_loader val_data_loader val_peers distributed cfg a
              (distill_interval (train_interval cfg) train_data_loader)
              [start_epoch..train_epoch cfg - 1] ls0)
         = [start_epoch..train_epoch cfg - 1]"
proof -
  from assms(1) have s0: "ls_sys ls0 = s" by (simp add: distill_init_unfold)
  have loop: "distill_loop fw train_data_loader val_data_loader val_peers distributed cfg a
           (distill_interval (train_interval cfg) train_data_loader)
           [start_epoch..train_epoch cfg - 1] ls0
         = Inr (run_epochs fw train_data_loader val_data_loader val_peers distributed cfg a
                  (distill_interval (train_interval cfg) train_data_loader)
                  [start_epoch..train_epoch cfg - 1] ls0)"
    by (rule distill_loop_ok) (simp add: s0 assms(2))
  have new: "new_events s
              (ls_sys (run_epochs fw train_data_loader val_data_loader val_peers distributed cfg a
                         (distill_interval (train_interval cfg) train_data_loader)
                         [start_epoch..train_epoch cfg - 1] ls0))
             = loop_events fw train_data_loader val_data_loader val_peers distributed cfg a
                 (distill_interval (train_interval cfg) train_data_loader)
                 [start_epoch..train_epoch cfg - 1] ls0"
    by (rule new_events_append) (simp add: run_epochs_events s0)
  show ?thesis
    unfolding new trained_epochs_loop
    using loop distill_result [OF assms] by simp
qed

text \<open>The small run as a worker of a distributed run: one epoch from a fresh start, after
  which the weight of the student is 2 and the running best 1/2.\<close>

theorem distill_epochs_in_order_witness:
  "distill_init demo_framework demo_teacher demo_student demo_config (demo_sys True [])
     = Inr (demo_init True)
   \<and> \<not> args_apex demo_args
   \<and> dist_initialized (demo_sys True [])
   \<and> [0..train_epoch demo_config - 1] = [0]
   \<and> distill_loop demo_framework demo_train demo_val [] True demo_config demo_args 1 [0]
        (demo_init True)
       = Inr (epoch_effect demo_framework demo_train demo_val [] True demo_config demo_args 1 0
                (demo_init True))
   \<and> distill demo_framework demo_teacher demo_student demo_train demo_val [] True 0
        demo_config demo_args (demo_sys True [])
       = Inr ((epoch_effect demo_framework demo_train demo_val [] True demo_config demo_args 1 0
                 (demo_init True))
               \<lparr>ls_sys := emit EvBarrier
                  (ls_sys (epoch_effect demo_framework demo_train demo_val [] True demo_config
                             demo_args 1 0 (demo_init True)))\<rparr>)
   \<and> ls_student (epoch_effect demo_framework demo_train demo_val [] True demo_config demo_args
                   1 0 (demo_init True))
       = Plain \<lparr>params = [(''fc.weight'', [2])], training = False\<rparr>
   \<and> ls_best (epoch_effect demo_framework demo_train demo_val [] True demo_config demo_args
                1 0 (demo_init True)) = 1 / 2
   \<and> trained_epochs (new_events (demo_sys True [])
        (ls_sys (epoch_effect demo_framework demo_train demo_val [] True demo_config demo_args
                   1 0 (demo_init True)))) = [0]"
proof -
  have na: "\<not> args_apex demo_args" by (simp add: demo_args_def)
  then have ap: "args_apex demo_args \<longrightarrow> amp_available (demo_sys True [])" by simp
  have di: "dist_initialized (demo_sys True [])" by (simp add: demo_sys_def)
  show ?thesis
    using distill_epochs_in_order [OF demo_init_fresh [of True] ap,
        where train_data_loader = demo_train and val_data_loader = demo_val
          and val_peers = "[]" and distributed = True and start_epoch = 0]
      na di demo_init_fresh [of True] demo_student_trained [of True True]
      demo_best [of True True]
    by (simp add: demo_interval demo_epochs demo_run)
qed

text \<open>
  Claim C10. The interval that \<^verbatim>\<open>distill\<close> hands to \<^verbatim>\<open>log_every\<close> in every training and
  every validation pass is at least 1: a configured interval of 0 or less is replaced by
  the number of training batches divided by 20 (rounded down) when there are at least 20
  batches and by 1 otherwise, and a positive configured interval is used as it is. A run
  that returns has made two calls of \<^verbatim>\<open>log_every\<close> per epoch, all with this interval; a run
  that raises has made no call of \<^verbatim>\<open>log_every\<close> with another interval.
\<close>

theorem distill_interval_at_least_one:
  "1 \<le> distill_interval (train_interval cfg) train_data_loader
   \<and> distill_interval (train_interval cfg) train_data_loader =
       (if train_interval cfg \<le> 0
        then (if 20 \<le> length train_data_loader
              then int (length train_data_loader) div 20 else 1)
        else train_interval cfg)
   \<and> (\<forall>ls. distill fw teacher_model student_model train_data_loader val_data_loader val_peers
              distributed start_epoch cfg a s = Inr ls \<longrightarrow>
            log_intervals (new_events s (ls_sys ls)) =
              replicate (2 * length [start_epoch..train_epoch cfg - 1])
                (distill_interval (train_interval cfg) train_data_loader))
   \<and> (\<forall>err ls. distill fw teacher_model student_model train_data_loader val_data_loader
                  val_peers distributed start_epoch cfg a s = Inl (err, ls) \<longrightarrow>
                set (log_intervals (new_events s (ls_sys ls)))
                  \<subseteq> {distill_interval (train_interval cfg) train_data_loader})"
proof (intro conjI allI impI)
  show "1 \<le> distill_interval (train_interval cfg) train_data_loader"
    by (rule distill_interval_ge1)
  show "distill_interval (train_interval cfg) train_data_loader =
          (if train_interval cfg \<le> 0
           then (if 20 \<le> length train_data_loader
                 then int (length train_data_loader) div 20 else 1)
           else train_interval cfg)"
    by (simp add: distill_interval_def Let_def)
next
  fix ls
  assume "distill fw teacher_model student_model train_data_loader val_data_loader val_peers
            distributed start_epoch cfg a s = Inr ls"
  then show "log_intervals (new_events s (ls_sys ls)) =
               replicate (2 * length [start_epoch..train_epoch cfg - 1])
                 (distill_interval (train_interval cfg) train_data_loader)"
    by (rule distill_Inr_intervals)
next
  fix err ls
  assume "distill fw teacher_model student_model train_data_loader val_data_loader val_peers
            distributed start_epoch cfg a s = Inl (err, ls)"
  then show "set (log_intervals (new_events s (ls_sys ls)))
               \<subseteq> {distill_interval (train_interval cfg) train_data_loader}"
    by (rule distill_Inl)
qed

text \<open>The small run: the configured interval is 0 and there is one training batch, so
  both passes of the one epoch log with interval 1.\<close>

theorem distill_interval_at_least_one_witness:
  "distill demo_framework demo_teacher demo_student demo_train demo_val [] True 0
     demo_config demo_args (demo_sys True [])
     = Inr ((epoch_effect demo_framework demo_train demo_val [] True demo_config demo_args 1 0
               (demo_init True))
             \<lparr>ls_sys := emit EvBarrier
                (ls_sys (epoch_effect demo_framework demo_train demo_val [] True demo_config
                           demo_args 1 0 (demo_init True)))\<rparr>)
   \<and> train_interval demo_config = 0
   \<and> length demo_train = 1
   \<and> distill_interval (train_interval demo_config) demo_train = 1
   \<and> log_intervals (new_events (demo_sys True [])
        (emit EvBarrier (ls_sys (epoch_effect demo_framework demo_train demo_val [] True
                                   demo_config demo_args 1 0 (demo_init True)))))
       = [1, 1]"
proof -
  have "replicate (2 * length [0::int]) (1::int) = [1, 1]"
    by (simp add: numeral_2_eq_2)
  moreover have "train_interval demo_config = 0" "length demo_train = 1"
    by (simp_all add: demo_config_def demo_train_def)
  ultimately show ?thesis
    using distill_interval_at_least_one [where fw = demo_framework
        and teacher_model = demo_teacher and student_model = demo_student
        and train_data_loader = demo_train and val_data_loader = demo_val and val_peers = "[]"
        and distributed = True and start_epoch = 0 and cfg = demo_config and a = demo_args
        and s = "demo_sys True []"]
    by (simp add: demo_distill demo_interval demo_epochs)
qed

section \<open>The best checkpoint\<close>

text \<open>
  Claim C1, amended. In the epoch that follows any number of epochs of a run, a checkpoint
  is saved if and only if the validation accuracy of the epoch exceeds the running best
  and the process is the main one. On the main process, after every epoch the running best
  is the maximum of the validation accuracies reported so far in the run, and once it is
  positive the \<^verbatim>\<open>best_value\<close> in the checkpoint file equals it. On any other process the
  running best stays 0.0 and no file changes. The epochs are those that run to their end.
\<close>

theorem distill_checkpoint_best:
  assumes init: "distill_init fw teacher_model student_model cfg s = Inr ls0"
    and loop: "distill_loop fw train_data_loader val_data_loader val_peers distributed cfg a interval epochs ls0 = Inr ls"
    and step: "distill_epoch fw train_data_loader val_data_loader val_peers distributed cfg a interval epoch ls = Inr ls'"
  shows "\<exists>v. val_accs (new_events (ls_sys ls) (ls_sys ls')) = [v]
           \<and> saves (new_events (ls_sys ls) (ls_sys ls'))
               = (if ls_best ls < v \<and> main_process s then [mimic_ckpt cfg] else [])
           \<and> (main_process s \<longrightarrow>
                 ls_best ls' = Max (set (val_accs (new_events s (ls_sys ls'))))
                 \<and> (0 < ls_best ls' \<longrightarrow>
                      stored_best (ls_sys ls') (mimic_ckpt cfg) = Some (PFloat (ls_best ls'))))
           \<and> (\<not> main_process s \<longrightarrow> ls_best ls' = 0 \<and> files (ls_sys ls') = files s)"
proof -
  let ?v = "epoch_accuracy 1 fw train_data_loader val_data_loader val_peers a ls"
  let ?es = "epochs @ [epoch]"
  from loop have ls: "ls = run_epochs fw train_data_loader val_data_loader val_peers distributed cfg a interval epochs ls0"
    by (rule distill_loop_Inr)
  from step have ls': "ls' = epoch_effect fw train_data_loader val_data_loader val_peers distributed cfg a interval epoch ls"
    by (rule distill_epoch_Inr)
  from init have s0: "ls_sys ls0 = s" and b0: "ls_best ls0 = 0"
    by (simp_all add: distill_init_unfold)
  have main: "main_process (ls_sys ls) = main_process s"
    by (simp add: ls run_epochs_frame s0)
  have all: "ls' = run_epochs fw train_data_loader val_data_loader val_peers distributed cfg a interval ?es ls0"
    by (simp add: ls ls' run_epochs_snoc)
  have run: "new_events s (ls_sys ls') =
               loop_events fw train_data_loader val_data_loader val_peers distributed cfg a interval ?es ls0"
    by (rule new_events_append) (simp add: all run_epochs_events s0)
  have c1: "val_accs (new_events (ls_sys ls) (ls_sys ls')) = [?v]"
    by (simp add: ls' epoch_val_accs)
  have c2: "saves (new_events (ls_sys ls) (ls_sys ls'))
              = (if ls_best ls < ?v \<and> main_process s then [mimic_ckpt cfg] else [])"
    by (simp add: ls' epoch_saves epoch_updates_def main)
  have c3: "ls_best ls' = Max (set (val_accs (new_events s (ls_sys ls'))))" if m: "main_process s"
  proof -
    have ne: "val_accs (loop_events fw train_data_loader val_data_loader val_peers distributed cfg a interval ?es ls0) \<noteq> []"
      using length_val_accs_loop [of fw train_data_loader val_data_loader val_peers distributed cfg a interval ?es ls0]
      by auto
    have "ls_best ls' = Max (insert 0 (set (val_accs (new_events s (ls_sys ls')))))"
      using m run_epochs_best [of ls0 fw train_data_loader val_data_loader val_peers distributed cfg a interval ?es]
      by (simp add: all [symmetric] run s0 b0)
    also have "\<dots> = Max (set (val_accs (new_events s (ls_sys ls'))))"
      unfolding run by (rule Max_insert_nonneg [OF ne]) (auto dest: val_accs_loop_nonneg)
    finally show ?thesis .
  qed
  have c4: "0 < ls_best ls' \<longrightarrow> stored_best (ls_sys ls') (mimic_ckpt cfg) = Some (PFloat (ls_best ls'))"
    if m: "main_process s"
    using m run_epochs_stored [of ls0 0 cfg fw train_data_loader val_data_loader val_peers distributed a interval ?es]
    by (simp add: all [symmetric] s0 b0)
  have c5: "ls_best ls' = 0 \<and> files (ls_sys ls') = files s" if m: "\<not> main_process s"
    using m run_epochs_not_main [of ls0 fw train_data_loader val_data_loader val_peers distributed cfg a interval ?es]
    by (simp add: all [symmetric] s0 b0)
  from c1 c2 c3 c4 c5 show ?thesis by blast
qed

text \<open>Claim C1 as stated fails on a process that is not the main one: the epoch of the
  small run reports a validation accuracy of 1/2, and the running best is still 0.\<close>

theorem distill_best_counterexample:
  "distill_init demo_framework demo_teacher demo_student demo_config (demo_sys False [])
     = Inr (demo_init False)
   \<and> distill_epoch demo_framework demo_train demo_val [] False demo_config demo_args 1 0
        (demo_init False)
       = Inr (epoch_effect demo_framework demo_train demo_val [] False demo_config demo_args 1 0
                (demo_init False))
   \<and> val_accs (new_events (demo_sys False [])
        (ls_sys (epoch_effect demo_framework demo_train demo_val [] False demo_config demo_args
                   1 0 (demo_init False)))) = [1 / 2]
   \<and> ls_best (epoch_effect demo_framework demo_train demo_val [] False demo_config demo_args 1 0
                (demo_init False)) = 0
   \<and> ls_best (epoch_effect demo_framework demo_train demo_val [] False demo_config demo_args 1 0
                (demo_init False))
       \<noteq> Max (set (val_accs (new_events (demo_sys False [])
                (ls_sys (epoch_effect demo_framework demo_train demo_val [] False demo_config
                           demo_args 1 0 (demo_init False))))))"
  unfolding demo_val_accs demo_best
  by (simp add: demo_init_fresh demo_epoch)

text \<open>The small run on the main process: after the epoch the running best is 1/2 and so
  is the best value in the checkpoint file.\<close>

theorem distill_checkpoint_best_witness:
  "distill_init demo_framework demo_teacher demo_student demo_config (demo_sys True [])
     = Inr (demo_init True)
   \<and> distill_loop demo_framework demo_train demo_val [] False demo_config demo_args 1 []
        (demo_init True) = Inr (demo_init True)
   \<and> distill_epoch demo_framework demo_train demo_val [] False demo_config demo_args 1 0
        (demo_init True)
       = Inr (epoch_effect demo_framework demo_train demo_val [] False demo_config demo_args 1 0
                (demo_init True))
   \<and> main_process (demo_sys True [])
   \<and> saves (new_events (demo_sys True [])
        (ls_sys (epoch_effect demo_framework demo_train demo_val [] False demo_config demo_args
                   1 0 (demo_init True)))) = [''student.pt'']
   \<and> ls_best (epoch_effect demo_framework demo_train demo_val [] False demo_config demo_args 1 0
                (demo_init True)) = 1 / 2
   \<and> stored_best (ls_sys (epoch_effect demo_framework demo_train demo_val [] False demo_config
                             demo_args 1 0 (demo_init True))) (mimic_ckpt demo_config)
       = Some (PFloat (1 / 2))"
proof -
  let ?ls' = "epoch_effect demo_framework demo_train demo_val [] False demo_config demo_args 1 0
                (demo_init True)"
  have m: "main_process (demo_sys True [])" by (simp add: demo_sys_def)
  have a: "val_accs (new_events (demo_sys True []) (ls_sys ?ls')) = [1 / 2]"
    by (rule demo_val_accs)
  have b: "ls_best (demo_init True) = 0" "mimic_ckpt demo_config = ''student.pt''"
    "ls_sys (demo_init True) = demo_sys True []"
    by (simp_all add: demo_init_def demo_config_def)
  from distill_checkpoint_best [OF demo_init_fresh demo_loop_Nil demo_epoch]
  obtain v where
    "val_accs (new_events (ls_sys (demo_init True)) (ls_sys ?ls')) = [v]"
    "saves (new_events (ls_sys (demo_init True)) (ls_sys ?ls'))
       = (if ls_best (demo_init True) < v \<and> main_process (demo_sys True [])
          then [mimic_ckpt demo_config] else [])"
    "ls_best ?ls' = Max (set (val_accs (new_events (demo_sys True []) (ls_sys ?ls'))))"
    "0 < ls_best ?ls' \<longrightarrow>
       stored_best (ls_sys ?ls') (mimic_ckpt demo_config) = Some (PFloat (ls_best ?ls'))"
    using m by blast
  then show ?thesis
    using m by (simp add: a b demo_init_fresh demo_loop_Nil demo_epoch)
qed

text \<open>
  Claim C8. When the checkpoint file exists at the start of \<^verbatim>\<open>distill\<close>, the stored state
  is loaded into the optimizer and the scheduler only: the student model is the one passed
  in, and the running best starts at 0.0 whatever best value the file stores. So on the
  main process, the first epoch with a positive validation accuracy (the running best is
  still 0.0 when it starts) writes its own accuracy into the checkpoint file, whatever was
  stored before.
\<close>

theorem distill_resume_ignores_best:
  assumes fl: "files s (mimic_ckpt cfg) = Some ck"
    and opt: "map_of ck ''optimizer'' = Some (PStateDict stored_optimizer)"
    and sch: "map_of ck ''lr_scheduler'' = Some (PStateDict stored_scheduler)"
    and cf: "map_of ck ''config'' = Some stored_config"
    and ar: "map_of ck ''args'' = Some stored_args"
    and ls0: "ls0 = \<lparr>ls_student = student_model, ls_teacher = teacher_model,
                     ls_optimizer = stored_optimizer, ls_lr_scheduler = stored_scheduler,
                     ls_best = 0, ls_sys = s\<rparr>"
    and loop: "distill_loop fw train_data_loader val_data_loader val_peers distributed cfg a interval epochs ls0 = Inr ls"
    and step: "distill_epoch fw train_data_loader val_data_loader val_peers distributed cfg a interval epoch ls = Inr ls'"
  shows "distill_init fw teacher_model student_model cfg s = Inr ls0
         \<and> (\<exists>v. val_accs (new_events (ls_sys ls) (ls_sys ls')) = [v]
               \<and> (main_process s \<and> ls_best ls = 0 \<and> 0 < v \<longrightarrow>
                    stored_best (ls_sys ls') (mimic_ckpt cfg) = Some (PFloat v)))"
proof -
  let ?v = "epoch_accuracy 1 fw train_data_loader val_data_loader val_peers a ls"
  from loop have ls: "ls = run_epochs fw train_data_loader val_data_loader val_peers distributed cfg a interval epochs ls0"
    by (rule distill_loop_Inr)
  from step have ls': "ls' = epoch_effect fw train_data_loader val_data_loader val_peers distributed cfg a interval epoch ls"
    by (rule distill_epoch_Inr)
  have init: "distill_init fw teacher_model student_model cfg s = Inr ls0"
    using fl opt sch cf ar
    by (simp add: distill_init_def Let_def check_if_exists_def load_ckpt_def torch_load_def
        getitem_def get_default_def optimizer_load_state_dict_def scheduler_load_state_dict_def ls0)
  have main: "main_process (ls_sys ls) = main_process s"
    by (simp add: ls run_epochs_frame ls0)
  have c1: "val_accs (new_events (ls_sys ls) (ls_sys ls')) = [?v]"
    by (simp add: ls' epoch_val_accs)
  have c2: "stored_best (ls_sys ls') (mimic_ckpt cfg) = Some (PFloat ?v)"
    if "main_process s" "ls_best ls = 0" "0 < ?v"
    using that
    by (simp add: ls' epoch_effect_files epoch_updates_def main stored_best_def
        stored_best_epoch_snapshot)
  from init c1 c2 show ?thesis by blast
qed

text \<open>The small run resumed from the earlier checkpoint: the stored best value is 0.9, the
  first epoch reports 1/2, and afterwards the file stores 1/2.\<close>

theorem distill_resume_ignores_best_witness:
  "files (demo_sys True [(''student.pt'', demo_ckpt)]) (mimic_ckpt demo_config) = Some demo_ckpt
   \<and> stored_best (demo_sys True [(''student.pt'', demo_ckpt)]) (mimic_ckpt demo_config)
       = Some (PFloat 0.9)
   \<and> distill_init demo_framework demo_teacher demo_student demo_config
        (demo_sys True [(''student.pt'', demo_ckpt)]) = Inr demo_resumed
   \<and> ls_student demo_resumed = demo_student
   \<and> ls_best demo_resumed = 0
   \<and> distill_epoch demo_framework demo_train demo_val [] False demo_config demo_args 1 0
        demo_resumed
       = Inr (epoch_effect demo_framework demo_train demo_val [] False demo_config demo_args 1 0
                demo_resumed)
   \<and> val_accs (new_events (ls_sys demo_resumed)
        (ls_sys (epoch_effect demo_framework demo_train demo_val [] False demo_config demo_args
                   1 0 demo_resumed))) = [1 / 2]
   \<and> stored_best (ls_sys (epoch_effect demo_framework demo_train demo_val [] False demo_config
                             demo_args 1 0 demo_resumed)) (mimic_ckpt demo_config)
       = Some (PFloat (1 / 2))"
proof -
  let ?s = "demo_sys True [(''student.pt'', demo_ckpt)]"
  let ?ls' = "epoch_effect demo_framework demo_train demo_val [] False demo_config demo_args 1 0
                demo_resumed"
  have f: "files ?s (mimic_ckpt demo_config) = Some demo_ckpt"
    by (simp add: demo_sys_def demo_config_def)
  note o = demo_ckpt_entries(2) and l = demo_ckpt_entries(3) and c = demo_ckpt_entries(4)
    and a = demo_ckpt_entries(5) and b = demo_ckpt_entries(6)
  have r: "demo_resumed = \<lparr>ls_student = demo_student, ls_teacher = demo_teacher,
             ls_optimizer = [(''lr'', [0.01])], ls_lr_scheduler = [(''last_epoch'', [7])],
             ls_best = 0, ls_sys = ?s\<rparr>"
    by (simp add: demo_resumed_def)
  have ep: "distill_epoch demo_framework demo_train demo_val [] False demo_config demo_args 1 0
              demo_resumed = Inr ?ls'"
    by (rule distill_epoch_ok) (simp add: demo_args_def)
  have m: "main_process ?s" by (simp add: demo_sys_def)
  have z: "ls_best demo_resumed = 0" "ls_student demo_resumed = demo_student"
    by (simp_all add: demo_resumed_def)
  have acc: "epoch_accuracy 1 demo_framework demo_train demo_val [] demo_args demo_resumed = 1 / 2"
    by (simp add: epoch_accuracy_def trained_def weighted_average_def batch_accuracy_def hits_def
        scored_def in_topk_def demo_defs)
  have v: "val_accs (new_events (ls_sys demo_resumed) (ls_sys ?ls')) = [1 / 2]"
    using epoch_val_accs [of demo_resumed demo_framework demo_train demo_val "[]" False
        demo_config demo_args 1 0]
    unfolding acc .
  from distill_resume_ignores_best [OF f o l c a r demo_loop_Nil ep]
  have init: "distill_init demo_framework demo_teacher demo_student demo_config ?s = Inr demo_resumed"
    and "\<exists>v. val_accs (new_events (ls_sys demo_resumed) (ls_sys ?ls')) = [v]
             \<and> (main_process ?s \<and> ls_best demo_resumed = 0 \<and> 0 < v \<longrightarrow>
                  stored_best (ls_sys ?ls') (mimic_ckpt demo_config) = Some (PFloat v))"
    by blast+
  with v m z have "stored_best (ls_sys ?ls') (mimic_ckpt demo_config) = Some (PFloat (1 / 2))"
    by auto
  moreover have "stored_best ?s (mimic_ckpt demo_config) = Some (PFloat 0.9)"
    by (simp add: stored_best_def f b)
  ultimately show ?thesis using f init v z ep by blast
qed

end
